theory Spec2Isabelle
  imports Complex_Main
begin

section \<open>The Amber Restart codec of chemfiles (src/formats/AmberRestart.cpp)\<close>

text \<open>
  The codec sits on top of a NetCDF-style container (class \<open>NcFile\<close>) and moves one frame
  (positions, optional velocities, unit cell) between the container and a \<open>Frame\<close>.
  Stored numbers are C++ \<open>double\<close>s. They are modelled by a type variable \<open>'d\<close> with a zero
  and a multiplication about which nothing is assumed, so every theorem holds for whatever
  the machine multiplication computes. The conversion of a double to a \<open>float\<close>, which the
  reader applies to a scale factor, is a parameter \<open>to_float\<close> of the reading functions: it
  gives the double that the \<open>float\<close> is promoted to in a product. A C++ exception is a value of type \<open>error\<close>; a
  function that can throw after it has changed some state returns an \<open>outcome\<close>, which
  carries the state as it is when the function returns or throws.
\<close>

subsection \<open>Errors and outcomes\<close>

datatype error =
    format_error string
  | LookupError
  | BoundsError
  | IOError
  | assertion_failed

datatype 's outcome = Done 's | Thrown error 's

text \<open>Runs the statements in order; the first one that throws stops the run, and the
  state is the one the earlier statements have left.\<close>

fun run_all :: "('s \<Rightarrow> 's outcome) list \<Rightarrow> 's \<Rightarrow> 's outcome" where
  "run_all [] s = Done s"
| "run_all (st # sts) s =
     (case st s of Thrown e s' \<Rightarrow> Thrown e s' | Done s' \<Rightarrow> run_all sts s')"

text \<open>A call that either throws and leaves the state as it was, or returns the new
  state.\<close>

definition stmt :: "('s \<Rightarrow> error + 's) \<Rightarrow> 's \<Rightarrow> 's outcome" where
  "stmt op s = (case op s of Inl e \<Rightarrow> Thrown e s | Inr s' \<Rightarrow> Done s')"

text \<open>Sequencing of calls that return a value or throw.\<close>

definition and_then :: "error + 'a \<Rightarrow> ('a \<Rightarrow> error + 'b) \<Rightarrow> error + 'b" where
  "and_then r k = (case r of Inl e \<Rightarrow> Inl e | Inr x \<Rightarrow> k x)"

subsection \<open>The container\<close>

datatype Mode = READ | WRITE | APPEND

datatype NcMode = DEFINE | DATA

datatype NcType = NcChar | NcDouble

datatype 'd NcAttribute = StringAttribute string | FloatAttribute 'd

datatype 'd NcData = CharData "string list" | DoubleData "'d list"

text \<open>Modelled from the spec: a variable of the container (class \<open>NcVariable\<close> of
  NcFile.hpp): the ordered list of its dimension names, its attribute mapping and its raw
  data buffer; the element type is the one of the buffer. A numeric attribute holds the
  number that is stored in the container.\<close>

record 'd NcVariable =
  dims :: "string list"
  attributes :: "string \<rightharpoonup> 'd NcAttribute"
  data :: "'d NcData"

text \<open>Modelled from the spec: the container (class \<open>NcFile\<close> of NcFile.hpp) with its
  path, the mode it was opened in, its mutation phase, and its three mappings.\<close>

record 'd NcFile =
  path :: string
  mode :: Mode
  nc_mode :: NcMode
  global_attributes :: "string \<rightharpoonup> string"
  dimensions :: "string \<rightharpoonup> nat"
  variables :: "string \<rightharpoonup> 'd NcVariable"

text \<open>Modelled from the spec: \<open>NcFile::set_nc_mode\<close>. Staying in the same phase is a
  no-op, DEFINE to DATA is allowed, going back to DEFINE is unsupported.\<close>

definition set_nc_mode :: "NcMode \<Rightarrow> 'd NcFile \<Rightarrow> error + 'd NcFile" where
  "set_nc_mode m f =
     (if nc_mode f = m then Inr f
      else if m = DATA then Inr (f\<lparr>nc_mode := DATA\<rparr>)
      else Inl IOError)"

text \<open>Modelled from the spec: \<open>NcFile::add_global_attribute\<close>, valid only in the DEFINE
  phase.\<close>

definition add_global_attribute :: "string \<Rightarrow> string \<Rightarrow> 'd NcFile \<Rightarrow> error + 'd NcFile" where
  "add_global_attribute name val f =
     (if nc_mode f = DEFINE
      then Inr (f\<lparr>global_attributes := (global_attributes f)(name \<mapsto> val)\<rparr>)
      else Inl IOError)"

text \<open>Modelled from the spec: \<open>NcFile::add_dimension\<close>, valid only in the DEFINE phase.\<close>

definition add_dimension :: "string \<Rightarrow> nat \<Rightarrow> 'd NcFile \<Rightarrow> error + 'd NcFile" where
  "add_dimension name n f =
     (if nc_mode f = DEFINE
      then Inr (f\<lparr>dimensions := (dimensions f)(name \<mapsto> n)\<rparr>)
      else Inl IOError)"

text \<open>Modelled from the spec: the empty raw data buffer of a freshly declared variable.\<close>

fun empty_data :: "NcType \<Rightarrow> 'd NcData" where
  "empty_data NcChar = CharData []"
| "empty_data NcDouble = DoubleData []"

text \<open>Modelled from the spec: \<open>NcFile::add_variable\<close>, valid only in the DEFINE phase; the
  new variable has no attribute and an empty buffer.\<close>

definition add_variable :: "string \<Rightarrow> NcType \<Rightarrow> string list \<Rightarrow> 'd NcFile \<Rightarrow> error + 'd NcFile" where
  "add_variable name ty ds f =
     (if nc_mode f = DEFINE
      then Inr (f\<lparr>variables := (variables f)
              (name \<mapsto> \<lparr>dims = ds, attributes = Map.empty, data = empty_data ty\<rparr>)\<rparr>)
      else Inl IOError)"

text \<open>Modelled from the spec: \<open>NcFile::dimension\<close>, a lookup error when the dimension does
  not exist.\<close>

definition dimension :: "'d NcFile \<Rightarrow> string \<Rightarrow> error + nat" where
  "dimension f name = (case dimensions f name of None \<Rightarrow> Inl LookupError | Some n \<Rightarrow> Inr n)"

text \<open>Modelled from the spec: \<open>NcFile::optional_dimension\<close>, the default when the dimension
  does not exist.\<close>

definition optional_dimension :: "'d NcFile \<Rightarrow> string \<Rightarrow> nat \<Rightarrow> nat" where
  "optional_dimension f name dflt = (case dimensions f name of None \<Rightarrow> dflt | Some n \<Rightarrow> n)"

text \<open>Modelled from the spec: \<open>NcFile::variable_exists\<close>.\<close>

definition variable_exists :: "'d NcFile \<Rightarrow> string \<Rightarrow> bool" where
  "variable_exists f name = (variables f name \<noteq> None)"

text \<open>Modelled from the spec: \<open>NcFile::global_attribute\<close>, the string or absent.\<close>

definition global_attribute :: "'d NcFile \<Rightarrow> string \<Rightarrow> string option" where
  "global_attribute f name = global_attributes f name"

text \<open>Modelled from the spec: the element type of a variable.\<close>

fun type_of_data :: "'d NcData \<Rightarrow> NcType" where
  "type_of_data (CharData _) = NcChar"
| "type_of_data (DoubleData _) = NcDouble"

text \<open>Modelled from the spec: \<open>NcFile::variable<T>\<close>, a lookup error when the variable is
  absent or of another element type. The accessor it returns is the name of the variable.\<close>

definition variable :: "'d NcFile \<Rightarrow> NcType \<Rightarrow> string \<Rightarrow> error + string" where
  "variable f ty name =
     (case variables f name of
        None \<Rightarrow> Inl LookupError
      | Some v \<Rightarrow> if type_of_data (data v) = ty then Inr name else Inl LookupError)"

text \<open>Modelled from the spec: the bounds of a \<open>get\<close> or \<open>add\<close> match the declared
  dimension sizes: the access starts at the origin and \<open>count\<close> is the shape of the variable,
  the sizes of its dimensions in declaration order.\<close>

definition bounds_match :: "'d NcFile \<Rightarrow> 'd NcVariable \<Rightarrow> nat list \<Rightarrow> nat list \<Rightarrow> bool" where
  "bounds_match f v start count =
     (map (dimensions f) (dims v) = map Some count \<and> start = replicate (length count) 0)"

text \<open>Modelled from the spec: \<open>NcVariable::get\<close> on an accessor of doubles: data is read
  only in the DATA phase, a bounds error when the bounds do not match, and the buffer holds
  one value for every cell of the shape (a buffer that was never filled cannot be read).\<close>

definition get :: "'d NcFile \<Rightarrow> string \<Rightarrow> nat list \<Rightarrow> nat list \<Rightarrow> error + 'd list" where
  "get f var start count =
     (case variables f var of
        None \<Rightarrow> Inl LookupError
      | Some v \<Rightarrow>
          if nc_mode f \<noteq> DATA then Inl IOError
          else if \<not> bounds_match f v start count then Inl BoundsError
          else (case data v of
                  CharData _ \<Rightarrow> Inl LookupError
                | DoubleData d \<Rightarrow>
                    if length d = prod_list count then Inr d else Inl IOError))"

text \<open>Modelled from the spec: \<open>NcVariable::add\<close> on an accessor of doubles: data is written
  only in the DATA phase, as one bulk operation, a bounds error when the bounds or the length
  of the buffer do not match the declared dimension sizes.\<close>

definition add :: "string \<Rightarrow> nat list \<Rightarrow> nat list \<Rightarrow> 'd list \<Rightarrow> 'd NcFile \<Rightarrow> error + 'd NcFile" where
  "add var start count buf f =
     (case variables f var of
        None \<Rightarrow> Inl LookupError
      | Some v \<Rightarrow>
          if nc_mode f \<noteq> DATA then Inl IOError
          else if \<not> bounds_match f v start count \<or> length buf \<noteq> prod_list count
          then Inl BoundsError
          else (case data v of
                  CharData _ \<Rightarrow> Inl LookupError
                | DoubleData _ \<Rightarrow>
                    Inr (f\<lparr>variables := (variables f)(var \<mapsto> v\<lparr>data := DoubleData buf\<rparr>)\<rparr>)))"

text \<open>Modelled from the spec: \<open>NcVariable::add\<close> on an accessor of characters, which
  writes the fixed label values in the DATA phase.\<close>

definition add_chars :: "string \<Rightarrow> string list \<Rightarrow> 'd NcFile \<Rightarrow> error + 'd NcFile" where
  "add_chars var labels f =
     (case variables f var of
        None \<Rightarrow> Inl LookupError
      | Some v \<Rightarrow>
          if nc_mode f \<noteq> DATA then Inl IOError
          else (case data v of
                  DoubleData _ \<Rightarrow> Inl LookupError
                | CharData _ \<Rightarrow>
                    Inr (f\<lparr>variables := (variables f)(var \<mapsto> v\<lparr>data := CharData labels\<rparr>)\<rparr>)))"

text \<open>Modelled from the spec: \<open>NcVariable::attribute_exists\<close>.\<close>

definition attribute_exists :: "'d NcFile \<Rightarrow> string \<Rightarrow> string \<Rightarrow> bool" where
  "attribute_exists f var name =
     (case variables f var of None \<Rightarrow> False | Some v \<Rightarrow> attributes v name \<noteq> None)"

text \<open>Modelled from the spec: \<open>NcVariable::float_attribute\<close>, the stored number before
  its conversion to \<open>float\<close>, which the caller's declaration \<open>float scale_factor\<close> makes
  explicit; reading an attribute that is absent or is a string is a failure of the
  container.\<close>

definition float_attribute :: "'d NcFile \<Rightarrow> string \<Rightarrow> string \<Rightarrow> error + 'd" where
  "float_attribute f var name =
     (case variables f var of
        None \<Rightarrow> Inl LookupError
      | Some v \<Rightarrow>
          (case attributes v name of
             Some (FloatAttribute x) \<Rightarrow> Inr x
           | _ \<Rightarrow> Inl IOError))"

text \<open>Modelled from the spec: \<open>NcVariable::add_string_attribute\<close>.\<close>

definition add_string_attribute :: "string \<Rightarrow> string \<Rightarrow> string \<Rightarrow> 'd NcFile \<Rightarrow> error + 'd NcFile" where
  "add_string_attribute var name val f =
     (case variables f var of
        None \<Rightarrow> Inl LookupError
      | Some v \<Rightarrow>
          Inr (f\<lparr>variables := (variables f)
                (var \<mapsto> v\<lparr>attributes := (attributes v)(name \<mapsto> StringAttribute val)\<rparr>)\<rparr>))"

subsection \<open>Validation\<close>

text \<open>\<open>static_cast<size_t>(-1)\<close>, the atom count that \<open>is_valid\<close> takes to mean that no
  count is expected; sizes are natural numbers and \<open>size_t\<close> has 64 bits.\<close>

definition size_t_max :: nat where
  "size_t_max = 2 ^ 64 - 1"

text \<open>\<open>is_valid\<close>, lines 33 to 66. The warnings go to the global warning callback and are
  not part of the result; the lookup error of \<open>dimension\<close> propagates.\<close>

definition is_valid :: "'d NcFile \<Rightarrow> nat \<Rightarrow> error + bool" where
  "is_valid file natoms =
     (let writing = (natoms \<noteq> size_t_max) in
      if global_attribute file ''Conventions'' \<noteq> Some ''AMBERRESTART'' then Inr False
      else if global_attribute file ''ConventionVersion'' \<noteq> Some ''1.0'' then Inr False
      else (case dimension file ''spatial'' of
              Inl e \<Rightarrow> Inl e
            | Inr spatial \<Rightarrow>
                if spatial \<noteq> 3 then Inr False
                else if writing then
                  (case dimension file ''atom'' of
                     Inl e \<Rightarrow> Inl e
                   | Inr atom \<Rightarrow> if atom \<noteq> natoms then Inr False else Inr True)
                else Inr True))"

subsection \<open>Unit cell and frame\<close>

datatype 'd Vector3D = Vector3D (vx: 'd) (vy: 'd) (vz: 'd)

text \<open>Modelled from the spec: the unit-cell value type (class \<open>UnitCell\<close> of UnitCell.hpp)
  is consumed by the codec through its default constructor, its constructor from six
  scalars and its six accessors. The class is a parameter of the codec: a cell type \<open>'c\<close>
  together with these eight operations.\<close>

record ('d, 'c) UnitCell_class =
  UnitCell_default :: 'c
  UnitCell_six :: "'d \<Rightarrow> 'd \<Rightarrow> 'd \<Rightarrow> 'd \<Rightarrow> 'd \<Rightarrow> 'd \<Rightarrow> 'c"
  cell_a :: "'c \<Rightarrow> 'd"
  cell_b :: "'c \<Rightarrow> 'd"
  cell_c :: "'c \<Rightarrow> 'd"
  cell_alpha :: "'c \<Rightarrow> 'd"
  cell_beta :: "'c \<Rightarrow> 'd"
  cell_gamma :: "'c \<Rightarrow> 'd"

text \<open>Modelled from the spec: the physical frame (class \<open>Frame\<close> of Frame.hpp), as far as
  the codec sees it: the positions, the optional velocities and the cell.\<close>

record ('d, 'c) Frame =
  positions :: "'d Vector3D list"
  velocities :: "'d Vector3D list option"
  cell :: 'c

text \<open>Modelled from the spec: \<open>Frame::Frame()\<close>, no atom, no velocity data, the default
  cell.\<close>

definition Frame_default :: "('d, 'c) UnitCell_class \<Rightarrow> ('d, 'c) Frame" where
  "Frame_default U = \<lparr>positions = [], velocities = None, cell = UnitCell_default U\<rparr>"

text \<open>Modelled from the spec: \<open>Frame::size\<close>, the atom count.\<close>

definition frame_size :: "('d, 'c) Frame \<Rightarrow> nat" where
  "frame_size frame = length (positions frame)"

text \<open>Modelled from the spec: resizing a per-atom array (\<open>std::vector::resize\<close>), new
  entries being the zero vector.\<close>

definition resize_array :: "nat \<Rightarrow> ('d::zero) Vector3D list \<Rightarrow> 'd Vector3D list" where
  "resize_array n xs = take n xs @ replicate (n - length xs) (Vector3D 0 0 0)"

text \<open>Modelled from the spec: \<open>Frame::resize\<close>, which resizes every per-atom array of the
  frame.\<close>

definition resize :: "nat \<Rightarrow> ('d::zero, 'c) Frame \<Rightarrow> ('d, 'c) Frame" where
  "resize n frame =
     frame\<lparr>positions := resize_array n (positions frame),
           velocities := map_option (resize_array n) (velocities frame)\<rparr>"

text \<open>Modelled from the spec: \<open>Frame::add_velocities\<close>, which allocates velocity storage
  for every atom when the frame has none.\<close>

definition add_velocities :: "('d::zero, 'c) Frame \<Rightarrow> ('d, 'c) Frame" where
  "add_velocities frame =
     (case velocities frame of
        None \<Rightarrow> frame\<lparr>velocities := Some (replicate (frame_size frame) (Vector3D 0 0 0))\<rparr>
      | Some _ \<Rightarrow> frame)"

text \<open>Modelled from the spec: \<open>Frame::set_cell\<close>.\<close>

definition set_cell :: "'c \<Rightarrow> ('d, 'c) Frame \<Rightarrow> ('d, 'c) Frame" where
  "set_cell c frame = frame\<lparr>cell := c\<rparr>"

subsection \<open>The codec: construction\<close>

text \<open>Modelled from the spec: \<open>File::Compression\<close>, the default or any other option.\<close>

datatype Compression = DEFAULT | COMPRESSED nat

record 'd AmberRestartFormat =
  ncfile :: "'d NcFile"
  step_done :: bool
  validated :: bool

text \<open>The constructor, lines 68 to 82, from the container that the member initialiser
  \<open>file_(path, mode)\<close> has opened. A constructor that throws gives no object.\<close>

definition AmberRestartFormat :: "'d NcFile \<Rightarrow> Compression \<Rightarrow> error + 'd AmberRestartFormat" where
  "AmberRestartFormat opened compression =
     (let this = \<lparr>ncfile = opened, step_done = False, validated = False\<rparr> in
      case (if mode (ncfile this) = READ then
              (case is_valid (ncfile this) size_t_max of
                 Inl e \<Rightarrow> Inl e
               | Inr ok \<Rightarrow>
                   if \<not> ok
                   then Inl (format_error (''invalid AMBER Restart file at '' @ [CHR 0x27]
                                           @ path (ncfile this) @ [CHR 0x27]))
                   else Inr (this\<lparr>validated := True\<rparr>))
            else if mode (ncfile this) = APPEND then
              Inl (format_error ''append mode ('a') is not supported with AMBER Restart format'')
            else Inr this) of
        Inl e \<Rightarrow> Inl e
      | Inr this \<Rightarrow>
          if compression \<noteq> DEFAULT
          then Inl (format_error ''compression is not supported with NetCDF format'')
          else Inr this)"

definition nsteps :: "'d AmberRestartFormat \<Rightarrow> nat" where
  "nsteps this = 1"

subsection \<open>The codec: reading\<close>

text \<open>The three products \<open>x[0] *= s; x[1] *= s; x[2] *= s\<close> of \<open>read_cell\<close>.\<close>

definition scale_triple :: "('d::times) \<Rightarrow> 'd list \<Rightarrow> 'd list" where
  "scale_triple scale_factor xs =
     ((xs[0 := xs ! 0 * scale_factor])[1 := xs ! 1 * scale_factor])[2 := xs ! 2 * scale_factor]"

text \<open>The scaling block of \<open>read_cell\<close>, lines 133 to 138 and 140 to 145. The attribute
  goes into \<open>float scale_factor\<close>: the factor of the three products is its conversion to
  \<open>float\<close>.\<close>

definition scaled_cell_values ::
  "('d \<Rightarrow> 'd) \<Rightarrow> ('d::times) NcFile \<Rightarrow> string \<Rightarrow> 'd list \<Rightarrow> error + 'd list" where
  "scaled_cell_values to_float f var xs =
     (if attribute_exists f var ''scale_factor'' then
        (case float_attribute f var ''scale_factor'' of
           Inl e \<Rightarrow> Inl e
         | Inr stored \<Rightarrow> Inr (scale_triple (to_float stored) xs))
      else Inr xs)"

text \<open>\<open>read_cell\<close>, lines 111 to 148. The two assertions are branches of their own.\<close>

definition read_cell ::
  "('d::times, 'c) UnitCell_class \<Rightarrow> ('d \<Rightarrow> 'd) \<Rightarrow> 'd NcFile \<Rightarrow> error + 'c" where
  "read_cell U to_float f =
     (if \<not> variable_exists f ''cell_lengths'' \<or> \<not> variable_exists f ''cell_angles''
      then Inr (UnitCell_default U)
      else if optional_dimension f ''cell_spatial'' 0 \<noteq> 3 \<or>
              optional_dimension f ''cell_angular'' 0 \<noteq> 3
      then Inr (UnitCell_default U)
      else
        and_then (variable f NcDouble ''cell_lengths'') (\<lambda>length_var.
        and_then (variable f NcDouble ''cell_angles'') (\<lambda>angles_var.
        and_then (get f length_var [0] [3]) (\<lambda>lengths.
        and_then (get f angles_var [0] [3]) (\<lambda>angles.
        if length lengths \<noteq> 3 \<or> length angles \<noteq> 3 then Inl assertion_failed
        else
          and_then (scaled_cell_values to_float f length_var lengths) (\<lambda>lengths.
          and_then (scaled_cell_values to_float f angles_var angles) (\<lambda>angles.
          Inr (UnitCell_six U (lengths ! 0) (lengths ! 1) (lengths ! 2)
                              (angles ! 0) (angles ! 1) (angles ! 2)))))))))"

text \<open>The scaling loop of \<open>read_array\<close>, lines 159 to 164, with the same
  \<open>float scale_factor\<close>.\<close>

definition scaled_values ::
  "('d \<Rightarrow> 'd) \<Rightarrow> ('d::times) NcFile \<Rightarrow> string \<Rightarrow> 'd list \<Rightarrow> error + 'd list" where
  "scaled_values to_float f var xs =
     (if attribute_exists f var ''scale_factor'' then
        (case float_attribute f var ''scale_factor'' of
           Inl e \<Rightarrow> Inl e
         | Inr stored \<Rightarrow> Inr (map (\<lambda>v. v * to_float stored) xs))
      else Inr xs)"

text \<open>The reshaping loop of \<open>read_array\<close>, lines 166 to 170: one step for every \<open>i\<close> from 0
  up to \<open>natoms\<close>.\<close>

definition reshape :: "nat \<Rightarrow> 'd list \<Rightarrow> 'd Vector3D list \<Rightarrow> 'd Vector3D list" where
  "reshape natoms xs array =
     fold (\<lambda>i arr. arr[i := Vector3D (xs ! (3 * i + 0)) (xs ! (3 * i + 1)) (xs ! (3 * i + 2))])
          [0..<natoms] array"

text \<open>\<open>read_array\<close>, lines 150 to 171: from the span it is given to the span as it leaves
  it. It throws before it writes to the span.\<close>

definition read_array ::
  "('d \<Rightarrow> 'd) \<Rightarrow> ('d::times) NcFile \<Rightarrow> 'd Vector3D list \<Rightarrow> string
     \<Rightarrow> error + 'd Vector3D list" where
  "read_array to_float f array name =
     and_then (variable f NcDouble name) (\<lambda>array_var.
     and_then (dimension f ''atom'') (\<lambda>natoms.
     if length array \<noteq> natoms then Inl assertion_failed
     else
       and_then (get f array_var [0, 0] [natoms, 3]) (\<lambda>xs.
       and_then (scaled_values to_float f array_var xs) (\<lambda>xs.
       Inr (reshape natoms xs array)))))"

text \<open>\<open>read_step\<close>, lines 86 to 101, on the codec and the caller's frame.\<close>

definition read_step ::
  "('d::{zero,times}, 'c) UnitCell_class \<Rightarrow> ('d \<Rightarrow> 'd) \<Rightarrow> nat
     \<Rightarrow> 'd AmberRestartFormat \<times> ('d, 'c) Frame
     \<Rightarrow> ('d AmberRestartFormat \<times> ('d, 'c) Frame) outcome" where
  "read_step U to_float step st =
     (case st of (this, frame) \<Rightarrow>
      if step \<noteq> 0
      then Thrown (format_error ''AMBER Restart format only supports reading one frame'')
                  (this, frame)
      else
       (case read_cell U to_float (ncfile this) of
          Inl e \<Rightarrow> Thrown e (this, frame)
        | Inr c \<Rightarrow>
           (let frame = set_cell c frame in
            (case dimension (ncfile this) ''atom'' of
               Inl e \<Rightarrow> Thrown e (this, frame)
             | Inr natoms \<Rightarrow>
                (let frame = resize natoms frame in
                 (case read_array to_float (ncfile this) (positions frame) ''coordinates'' of
                    Inl e \<Rightarrow> Thrown e (this, frame)
                  | Inr ps \<Rightarrow>
                     (let frame = frame\<lparr>positions := ps\<rparr> in
                      if variable_exists (ncfile this) ''velocities'' then
                        (let frame = add_velocities frame in
                         (case velocities frame of
                            None \<Rightarrow> Thrown assertion_failed (this, frame)
                          | Some vs0 \<Rightarrow>
                             (case read_array to_float (ncfile this) vs0 ''velocities'' of
                                Inl e \<Rightarrow> Thrown e (this, frame)
                              | Inr vs \<Rightarrow>
                                 Done (this\<lparr>step_done := True\<rparr>,
                                       frame\<lparr>velocities := Some vs\<rparr>))))
                      else Done (this\<lparr>step_done := True\<rparr>, frame))))))))"

text \<open>\<open>read\<close>, lines 103 to 109.\<close>

definition read ::
  "('d::{zero,times}, 'c) UnitCell_class \<Rightarrow> ('d \<Rightarrow> 'd)
     \<Rightarrow> 'd AmberRestartFormat \<times> ('d, 'c) Frame
     \<Rightarrow> ('d AmberRestartFormat \<times> ('d, 'c) Frame) outcome" where
  "read U to_float st =
     (case st of (this, frame) \<Rightarrow>
      if step_done this
      then Thrown (format_error ''AMBER Restart format only supports reading one frame'')
                  (this, frame)
      else read_step U to_float 0 (this, frame))"

subsection \<open>The codec: writing\<close>

text \<open>Modelled from the spec: the two constants of the build that \<open>initialize\<close> uses and
  that are declared elsewhere, \<open>CHEMFILES_VERSION\<close> of config.h and \<open>nc::STRING_MAXLEN\<close> of
  NcFile.hpp, the fixed maximal length of a label. They are parameters of the writer.\<close>

record config =
  CHEMFILES_VERSION :: string
  STRING_MAXLEN :: nat

text \<open>\<open>initialize\<close>, lines 174 to 210, statement by statement. An accessor is the name of
  its variable.\<close>

definition initialize :: "config \<Rightarrow> 'd NcFile \<Rightarrow> nat \<Rightarrow> bool \<Rightarrow> 'd NcFile outcome" where
  "initialize cfg f natoms with_velocities =
     run_all (map stmt
       ([set_nc_mode DEFINE,
         add_global_attribute ''Conventions'' ''AMBERRESTART'',
         add_global_attribute ''ConventionVersion'' ''1.0'',
         add_global_attribute ''program'' ''Chemfiles'',
         add_global_attribute ''programVersion'' (CHEMFILES_VERSION cfg),
         add_dimension ''spatial'' 3,
         add_dimension ''atom'' natoms,
         add_dimension ''cell_spatial'' 3,
         add_dimension ''cell_angular'' 3,
         add_dimension ''label'' (STRING_MAXLEN cfg),
         add_variable ''spatial'' NcChar [''spatial''],
         add_variable ''cell_spatial'' NcChar [''cell_spatial''],
         add_variable ''cell_angular'' NcChar [''cell_angular'', ''label''],
         add_variable ''coordinates'' NcDouble [''atom'', ''spatial''],
         add_string_attribute ''coordinates'' ''units'' ''angstrom'',
         add_variable ''cell_lengths'' NcDouble [''cell_spatial''],
         add_string_attribute ''cell_lengths'' ''units'' ''angstrom'',
         add_variable ''cell_angles'' NcDouble [''cell_angular''],
         add_string_attribute ''cell_angles'' ''units'' ''degree'']
        @ (if with_velocities
           then [add_variable ''velocities'' NcDouble [''atom'', ''spatial''],
                 add_string_attribute ''velocities'' ''units'' ''angstrom/picosecond'']
           else [])
        @ [set_nc_mode DATA,
           add_chars ''spatial'' [''xyz''],
           add_chars ''cell_spatial'' [''abc''],
           add_chars ''cell_angular'' [''alpha'', ''beta'', ''gamma'']])) f"

text \<open>The packing loop of \<open>write_array\<close>, lines 240 to 245, on a buffer of \<open>natoms * 3\<close>
  zeros.\<close>

definition pack :: "('d::zero) Vector3D list \<Rightarrow> 'd list" where
  "pack array =
     fold (\<lambda>i buf. ((buf[3 * i + 0 := vx (array ! i)])
                         [3 * i + 1 := vy (array ! i)])
                         [3 * i + 2 := vz (array ! i)])
          [0..<length array] (replicate (length array * 3) 0)"

text \<open>\<open>write_array\<close>, lines 234 to 247.\<close>

definition write_array :: "('d::zero) Vector3D list \<Rightarrow> string \<Rightarrow> 'd NcFile \<Rightarrow> 'd NcFile outcome" where
  "write_array array name f =
     (case variable f NcDouble name of
        Inl e \<Rightarrow> Thrown e f
      | Inr var \<Rightarrow>
          (let natoms = length array in
           stmt (add var [0, 0] [natoms, 3] (pack array)) f))"

text \<open>\<open>write_cell\<close>, lines 249 to 261.\<close>

definition write_cell :: "('d, 'c) UnitCell_class \<Rightarrow> 'c \<Rightarrow> 'd NcFile \<Rightarrow> 'd NcFile outcome" where
  "write_cell U c f =
     (case variable f NcDouble ''cell_lengths'' of
        Inl e \<Rightarrow> Thrown e f
      | Inr lengths \<Rightarrow>
         (case variable f NcDouble ''cell_angles'' of
            Inl e \<Rightarrow> Thrown e f
          | Inr angles \<Rightarrow>
             (let length_data = [cell_a U c, cell_b U c, cell_c U c];
                  angles_data = [cell_alpha U c, cell_beta U c, cell_gamma U c]
              in run_all [stmt (add lengths [0] [3] length_data),
                          stmt (add angles [0] [3] angles_data)] f)))"

text \<open>The first block of \<open>write\<close>, lines 219 to 223: the file is initialised when it was
  not validated, and the assertion is a branch of its own.\<close>

definition write_validate ::
  "config \<Rightarrow> nat \<Rightarrow> bool \<Rightarrow> 'd AmberRestartFormat \<Rightarrow> 'd AmberRestartFormat outcome" where
  "write_validate cfg natoms with_velocities this =
     (if \<not> validated this then
        (case initialize cfg (ncfile this) natoms with_velocities of
           Thrown e f \<Rightarrow> Thrown e (this\<lparr>ncfile := f\<rparr>)
         | Done f \<Rightarrow>
            (case is_valid f natoms of
               Inl e \<Rightarrow> Thrown e (this\<lparr>ncfile := f\<rparr>)
             | Inr ok \<Rightarrow>
                 if ok then Done (this\<lparr>ncfile := f, validated := True\<rparr>)
                 else Thrown assertion_failed (this\<lparr>ncfile := f\<rparr>)))
      else Done this)"

text \<open>The second block of \<open>write\<close>, lines 224 to 229, on the file of the codec.\<close>

definition write_data ::
  "('d::zero, 'c) UnitCell_class \<Rightarrow> ('d, 'c) Frame \<Rightarrow> 'd NcFile \<Rightarrow> 'd NcFile outcome" where
  "write_data U frame =
     run_all ([write_cell U (cell frame), write_array (positions frame) ''coordinates'']
              @ (case velocities frame of
                   None \<Rightarrow> []
                 | Some vs \<Rightarrow> [write_array vs ''velocities'']))"

text \<open>\<open>write\<close>, lines 212 to 232 (\<open>write\<close> is a reserved word here).\<close>

definition write_frame ::
  "config \<Rightarrow> ('d::zero, 'c) UnitCell_class \<Rightarrow> ('d, 'c) Frame \<Rightarrow> 'd AmberRestartFormat
     \<Rightarrow> 'd AmberRestartFormat outcome" where
  "write_frame cfg U frame this =
     (if step_done this
      then Thrown (format_error ''AMBER Restart format only supports writing one frame'') this
      else
       (let natoms = frame_size frame in
        (case write_validate cfg natoms (velocities frame \<noteq> None) this of
           Thrown e this \<Rightarrow> Thrown e this
         | Done this \<Rightarrow>
            (case write_data U frame (ncfile this) of
               Thrown e f \<Rightarrow> Thrown e (this\<lparr>ncfile := f\<rparr>)
             | Done f \<Rightarrow> Done (this\<lparr>ncfile := f, step_done := True\<rparr>)))))"

subsection \<open>Opening and reopening a container\<close>

text \<open>Modelled from the spec: \<open>NcFile::NcFile(path, WRITE)\<close> creates a container: nothing
  is declared yet and the schema can be defined.\<close>

definition NcFile_create :: "string \<Rightarrow> 'd NcFile" where
  "NcFile_create p =
     \<lparr>path = p, mode = WRITE, nc_mode = DEFINE, global_attributes = Map.empty,
      dimensions = Map.empty, variables = Map.empty\<rparr>"

text \<open>Modelled from the spec: closing a container and opening it again with
  \<open>NcFile::NcFile(path, READ)\<close>: the contents are those that were written, and the data
  can be read.\<close>

definition NcFile_reopen :: "'d NcFile \<Rightarrow> 'd NcFile" where
  "NcFile_reopen f = f\<lparr>mode := READ, nc_mode := DATA\<rparr>"

subsection \<open>A unit-cell class\<close>

datatype CellShape = ORTHORHOMBIC | TRICLINIC | INFINITE

text \<open>Modelled from the spec: a unit cell with its derived shape classification, three
  lengths and three angles.\<close>

datatype 'd UnitCell =
  UnitCell (shape: CellShape) (len_a: 'd) (len_b: 'd) (len_c: 'd)
           (ang_alpha: 'd) (ang_beta: 'd) (ang_gamma: 'd)

text \<open>Modelled from the spec: the class \<open>UnitCell\<close> of UnitCell.hpp. The default cell is
  the empty cell: no geometric information, zero lengths, the shape INFINITE; its angles,
  which the specification leaves open, are right angles. A cell built from six scalars is
  ORTHORHOMBIC when all its angles are 90 degrees, TRICLINIC otherwise: its shape is
  derived from the scalars, so it is never the empty cell.\<close>

definition cells :: "('d::{zero,numeral}, 'd UnitCell) UnitCell_class" where
  "cells =
     \<lparr>UnitCell_default = UnitCell INFINITE 0 0 0 90 90 90,
      UnitCell_six = (\<lambda>a b c alpha beta gamma.
         UnitCell (if alpha = 90 \<and> beta = 90 \<and> gamma = 90 then ORTHORHOMBIC else TRICLINIC)
                  a b c alpha beta gamma),
      cell_a = len_a, cell_b = len_b, cell_c = len_c,
      cell_alpha = ang_alpha, cell_beta = ang_beta, cell_gamma = ang_gamma\<rparr>"

subsection \<open>Writing a frame and reading it back\<close>

text \<open>The invariant of the class \<open>Frame\<close>: the velocities, when there are some, are one
  vector for every atom.\<close>

definition frame_wf :: "('d, 'c) Frame \<Rightarrow> bool" where
  "frame_wf frame =
     (case velocities frame of None \<Rightarrow> True | Some vs \<Rightarrow> length vs = length (positions frame))"

text \<open>A handle on a container just created at path \<open>p\<close>: the codec that the constructor
  returns in write mode.\<close>

definition fresh :: "string \<Rightarrow> 'd AmberRestartFormat" where
  "fresh p = \<lparr>ncfile = NcFile_create p, step_done = False, validated = False\<rparr>"

text \<open>The scenario of the test "Write files in Amber Restart format" of
  tests/formats/amber-restart.cpp: write the frame through a fresh handle, open the file
  again for reading, read a frame.\<close>

definition roundtrip ::
  "config \<Rightarrow> ('d::{zero,times}, 'c) UnitCell_class \<Rightarrow> ('d \<Rightarrow> 'd) \<Rightarrow> ('d, 'c) Frame
     \<Rightarrow> string \<Rightarrow> error + ('d, 'c) Frame" where
  "roundtrip cfg U to_float frame p =
     (case write_frame cfg U frame (fresh p) of
        Thrown e w \<Rightarrow> Inl e
      | Done w \<Rightarrow>
         (case AmberRestartFormat (NcFile_reopen (ncfile w)) DEFAULT of
            Inl e \<Rightarrow> Inl e
          | Inr r \<Rightarrow>
             (case read U to_float (r, Frame_default U) of
                Thrown e st \<Rightarrow> Inl e
              | Done st \<Rightarrow> Inr (snd st))))"

text \<open>The cell that the six-scalar constructor builds from the lengths and angles of a
  cell.\<close>

definition rebuilt :: "('d, 'c) UnitCell_class \<Rightarrow> 'c \<Rightarrow> 'c" where
  "rebuilt U c = UnitCell_six U (cell_a U c) (cell_b U c) (cell_c U c)
                                (cell_alpha U c) (cell_beta U c) (cell_gamma U c)"

text \<open>The state that an outcome carries.\<close>

fun final :: "'s outcome \<Rightarrow> 's" where
  "final (Done s) = s"
| "final (Thrown e s) = s"

text \<open>The container that \<open>initialize\<close> leaves when it starts from a container just
  created, and the one that the first \<open>write\<close> of a fresh handle leaves.\<close>

definition initialized :: "config \<Rightarrow> string \<Rightarrow> nat \<Rightarrow> bool \<Rightarrow> 'd NcFile" where
  "initialized cfg p natoms wv = final (initialize cfg (NcFile_create p) natoms wv)"

definition written ::
  "config \<Rightarrow> ('d::zero, 'c) UnitCell_class \<Rightarrow> ('d, 'c) Frame \<Rightarrow> string \<Rightarrow> 'd NcFile" where
  "written cfg U frame p =
     final (write_data U frame
              (initialized cfg p (frame_size frame) (velocities frame \<noteq> None)))"

text \<open>The packing loop of \<open>write_array\<close> after its first \<open>m\<close> steps.\<close>

definition pack_upto :: "nat \<Rightarrow> ('d::zero) Vector3D list \<Rightarrow> 'd list \<Rightarrow> 'd list" where
  "pack_upto m array buf0 =
     fold (\<lambda>i buf. ((buf[3 * i + 0 := vx (array ! i)])
                         [3 * i + 1 := vy (array ! i)])
                         [3 * i + 2 := vz (array ! i)])
          [0..<m] buf0"

subsection \<open>The checks and the scaling, in the words of the specification\<close>

text \<open>The conjunction of the four checks of the validation, the fourth one only when an
  atom count is expected.\<close>

definition spec_is_valid :: "'d NcFile \<Rightarrow> nat option \<Rightarrow> bool" where
  "spec_is_valid f expected =
     (global_attributes f ''Conventions'' = Some ''AMBERRESTART'' \<and>
      global_attributes f ''ConventionVersion'' = Some ''1.0'' \<and>
      dimensions f ''spatial'' = Some 3 \<and>
      (case expected of None \<Rightarrow> True | Some n \<Rightarrow> dimensions f ''atom'' = Some n))"

definition expected_atoms :: "nat \<Rightarrow> nat option" where
  "expected_atoms natoms = (if natoms = size_t_max then None else Some natoms)"

text \<open>The containers on which \<open>is_valid\<close> looks up a dimension that does not exist: the
  two attributes are right, and either \<open>spatial\<close> is absent, or \<open>spatial\<close> is 3, an atom count
  is expected and \<open>atom\<close> is absent.\<close>

definition is_valid_lookup_fails :: "'d NcFile \<Rightarrow> nat \<Rightarrow> bool" where
  "is_valid_lookup_fails f natoms =
     (global_attributes f ''Conventions'' = Some ''AMBERRESTART'' \<and>
      global_attributes f ''ConventionVersion'' = Some ''1.0'' \<and>
      (dimensions f ''spatial'' = None \<or>
       (dimensions f ''spatial'' = Some 3 \<and> expected_atoms natoms \<noteq> None
          \<and> dimensions f ''atom'' = None)))"

text \<open>A raw value of a variable after its \<open>scale_factor\<close> attribute, when the variable has
  one, has multiplied it: the factor is the attribute as a \<open>float\<close>.\<close>

definition spec_scale :: "('d \<Rightarrow> 'd) \<Rightarrow> ('d::times) NcFile \<Rightarrow> string \<Rightarrow> 'd \<Rightarrow> 'd" where
  "spec_scale to_float f var x =
     (case variables f var of
        None \<Rightarrow> x
      | Some v \<Rightarrow>
          (case attributes v ''scale_factor'' of
             Some (FloatAttribute s) \<Rightarrow> x * to_float s
           | _ \<Rightarrow> x))"

text \<open>Either of the two cell variables is absent, or either of the two cell dimensions is
  absent or not of size 3.\<close>

definition cell_data_missing :: "'d NcFile \<Rightarrow> bool" where
  "cell_data_missing f =
     (variables f ''cell_lengths'' = None \<or> variables f ''cell_angles'' = None \<or>
      dimensions f ''cell_spatial'' \<noteq> Some 3 \<or> dimensions f ''cell_angular'' \<noteq> Some 3)"

definition single_frame_read :: error where
  "single_frame_read = format_error ''AMBER Restart format only supports reading one frame''"

definition single_frame_write :: error where
  "single_frame_write = format_error ''AMBER Restart format only supports writing one frame''"

text \<open>An error of the container.\<close>

fun container_error :: "error \<Rightarrow> bool" where
  "container_error LookupError = True"
| "container_error BoundsError = True"
| "container_error IOError = True"
| "container_error _ = False"

subsection \<open>Single precision\<close>

text \<open>The nearest integer, a tie going to the even one.\<close>

definition round_even :: "real \<Rightarrow> int" where
  "round_even x =
     (let n = \<lfloor>x\<rfloor>; r = x - of_int n in
      if r < 1 / 2 then n else if 1 / 2 < r then n + 1 else if even n then n else n + 1)"

text \<open>The binary exponent of a positive number: the \<open>e\<close> with \<open>2 ^ e \<le> x < 2 ^ (e + 1)\<close>,
  found by halving or doubling, at most \<open>fuel\<close> times.\<close>

fun binade :: "nat \<Rightarrow> real \<Rightarrow> int" where
  "binade 0 x = 0"
| "binade (Suc fuel) x =
     (if 2 \<le> x then binade fuel (x / 2) + 1
      else if x < 1 then binade fuel (x * 2) - 1
      else 0)"

definition scale2 :: "int \<Rightarrow> real \<Rightarrow> real" where
  "scale2 k x = (if 0 \<le> k then x * 2 ^ nat k else x / 2 ^ nat (- k))"

text \<open>Rounding to a significand of \<open>p\<close> bits, to nearest and ties to even, with no bound
  on the exponent (2200 steps reach the exponent of every double).\<close>

definition round_to_precision :: "nat \<Rightarrow> real \<Rightarrow> real" where
  "round_to_precision p x =
     (if x = 0 then 0
      else (let e = binade 2200 \<bar>x\<bar>; k = int p - 1 - e in
            scale2 (- k) (of_int (round_even (scale2 k x)))))"

text \<open>The conversion of a double to \<open>float\<close>, a significand of 24 bits, for the numbers in
  the normal range of \<open>float\<close>; the doubles are real numbers here.\<close>

definition float32 :: "real \<Rightarrow> real" where
  "float32 x = round_to_precision 24 x"

subsection \<open>Containers and frames for the examples\<close>

definition build :: config where
  "build = \<lparr>CHEMFILES_VERSION = ''0.10.0'', STRING_MAXLEN = 10\<rparr>"

text \<open>A container of two atoms opened for reading, with a scale factor on the coordinates
  and on the cell lengths.\<close>

definition scaled :: "real NcFile" where
  "scaled =
     \<lparr>path = ''scaled.ncrst'', mode = READ, nc_mode = DATA,
      global_attributes =
        map_of [(''Conventions'', ''AMBERRESTART''), (''ConventionVersion'', ''1.0'')],
      dimensions =
        map_of [(''spatial'', 3), (''atom'', 2), (''cell_spatial'', 3), (''cell_angular'', 3)],
      variables =
        map_of [(''coordinates'',
                 \<lparr>dims = [''atom'', ''spatial''],
                  attributes = map_of [(''scale_factor'', FloatAttribute 2)],
                  data = DoubleData [1, 2, 3, 4, 5, 6]\<rparr>),
                (''cell_lengths'',
                 \<lparr>dims = [''cell_spatial''],
                  attributes = map_of [(''scale_factor'', FloatAttribute 3)],
                  data = DoubleData [5, 5, 5]\<rparr>),
                (''cell_angles'',
                 \<lparr>dims = [''cell_angular''], attributes = Map.empty,
                  data = DoubleData [90, 90, 90]\<rparr>)]\<rparr>"

definition no_spatial :: "real NcFile" where
  "no_spatial = scaled\<lparr>dimensions := map_of [(''atom'', 2)]\<rparr>"

definition no_atom :: "real NcFile" where
  "no_atom =
     scaled\<lparr>dimensions := map_of [(''spatial'', 3), (''cell_spatial'', 3), (''cell_angular'', 3)]\<rparr>"

text \<open>The same container without its \<open>coordinates\<close> variable.\<close>

definition no_coordinates :: "real NcFile" where
  "no_coordinates =
     scaled\<lparr>variables :=
        map_of [(''cell_lengths'',
                 \<lparr>dims = [''cell_spatial''],
                  attributes = map_of [(''scale_factor'', FloatAttribute 3)],
                  data = DoubleData [5, 5, 5]\<rparr>),
                (''cell_angles'',
                 \<lparr>dims = [''cell_angular''], attributes = Map.empty,
                  data = DoubleData [90, 90, 90]\<rparr>)]\<rparr>"

text \<open>A container of one atom whose scale factors are the double \<open>1 + 2 ^ -30\<close>, which
  is not a \<open>float\<close>.\<close>

definition fine :: "real NcFile" where
  "fine =
     \<lparr>path = ''fine.ncrst'', mode = READ, nc_mode = DATA,
      global_attributes =
        map_of [(''Conventions'', ''AMBERRESTART''), (''ConventionVersion'', ''1.0'')],
      dimensions =
        map_of [(''spatial'', 3), (''atom'', 1), (''cell_spatial'', 3), (''cell_angular'', 3)],
      variables =
        map_of [(''coordinates'',
                 \<lparr>dims = [''atom'', ''spatial''],
                  attributes = map_of [(''scale_factor'', FloatAttribute (1 + 1 / 2 ^ 30))],
                  data = DoubleData [2 ^ 30, 0, 0]\<rparr>),
                (''cell_lengths'',
                 \<lparr>dims = [''cell_spatial''],
                  attributes = map_of [(''scale_factor'', FloatAttribute (1 + 1 / 2 ^ 30))],
                  data = DoubleData [2 ^ 30, 2 ^ 30, 2 ^ 30]\<rparr>),
                (''cell_angles'',
                 \<lparr>dims = [''cell_angular''], attributes = Map.empty,
                  data = DoubleData [90, 90, 90]\<rparr>)]\<rparr>"

text \<open>The frame of the writing test: four atoms at (1, 2, 3) with the velocity
  (-3, -2, -1), and the cell of a frame just constructed.\<close>

definition four_atoms :: "(real, real UnitCell) Frame" where
  "four_atoms =
     \<lparr>positions = replicate 4 (Vector3D 1 2 3),
      velocities = Some (replicate 4 (Vector3D (-3) (-2) (-1))),
      cell = UnitCell_default cells\<rparr>"

text \<open>The same frame in an orthorhombic cell of side 15.\<close>

definition water_frame :: "(real, real UnitCell) Frame" where
  "water_frame = four_atoms\<lparr>cell := UnitCell ORTHORHOMBIC 15 15 15 90 90 90\<rparr>"

section \<open>Properties\<close>

subsection \<open>Single precision on the examples\<close>

lemma binade_unfold:
  "binade (numeral n) x =
     (if 2 \<le> x then binade (pred_numeral n) (x / 2) + 1
      else if x < 1 then binade (pred_numeral n) (x * 2) - 1
      else 0)"
  by (simp add: numeral_eq_Suc)

lemmas float32_defs = float32_def round_to_precision_def binade_unfold scale2_def
  round_even_def Let_def

lemma float32_2: "float32 2 = 2"
  by (simp add: float32_defs)

lemma float32_3: "float32 3 = 3"
  by (simp add: float32_defs)

lemma float32_fine: "float32 (1 + 1 / 2 ^ 30) = 1"
  by (simp add: float32_defs)

subsection \<open>The two loops over the atoms\<close>

lemma fold_upd_nth:
  "n \<le> length arr \<Longrightarrow>
   length (fold (\<lambda>i a. a[i := g i]) [0..<n] arr) = length arr \<and>
   (\<forall>i < length arr. fold (\<lambda>i a. a[i := g i]) [0..<n] arr ! i = (if i < n then g i else arr ! i))"
proof (induction n)
  case 0
  then show ?case by simp
next
  case (Suc n)
  then show ?case by (auto simp: nth_list_update less_Suc_eq)
qed

lemma reshape_length:
  "natoms \<le> length array \<Longrightarrow> length (reshape natoms xs array) = length array"
  unfolding reshape_def
  using fold_upd_nth [of natoms array
          "\<lambda>i. Vector3D (xs ! (3 * i + 0)) (xs ! (3 * i + 1)) (xs ! (3 * i + 2))"]
  by simp

lemma reshape_nth:
  "natoms \<le> length array \<Longrightarrow> i < natoms \<Longrightarrow>
   reshape natoms xs array ! i = Vector3D (xs ! (3 * i)) (xs ! (3 * i + 1)) (xs ! (3 * i + 2))"
  unfolding reshape_def
  using fold_upd_nth [of natoms array
          "\<lambda>i. Vector3D (xs ! (3 * i + 0)) (xs ! (3 * i + 1)) (xs ! (3 * i + 2))"]
  by simp

lemma length_fold_upd:
  "length (fold (\<lambda>i buf. ((buf[f1 i := g1 i])[f2 i := g2 i])[f3 i := g3 i]) is buf) = length buf"
  by (induction "is" arbitrary: buf) auto

lemma length_pack: "length (pack array) = length array * 3"
  by (simp add: pack_def length_fold_upd)

lemma pack_upto_nth:
  "3 * m \<le> length buf0 \<Longrightarrow>
   length (pack_upto m array buf0) = length buf0 \<and>
   (\<forall>i < m. pack_upto m array buf0 ! (3 * i) = vx (array ! i) \<and>
              pack_upto m array buf0 ! (3 * i + 1) = vy (array ! i) \<and>
              pack_upto m array buf0 ! (3 * i + 2) = vz (array ! i))"
proof (induction m)
  case 0
  then show ?case by (simp add: pack_upto_def)
next
  case (Suc m)
  then have IH: "length (pack_upto m array buf0) = length buf0"
    "\<And>i. i < m \<Longrightarrow> pack_upto m array buf0 ! (3 * i) = vx (array ! i) \<and>
              pack_upto m array buf0 ! (3 * i + 1) = vy (array ! i) \<and>
              pack_upto m array buf0 ! (3 * i + 2) = vz (array ! i)"
    by auto
  have step: "pack_upto (Suc m) array buf0 =
        (((pack_upto m array buf0)[3 * m + 0 := vx (array ! m)])
                         [3 * m + 1 := vy (array ! m)])
                         [3 * m + 2 := vz (array ! m)]"
    by (simp add: pack_upto_def)
  show ?case
    using Suc.prems IH unfolding step
    by (auto simp: nth_list_update less_Suc_eq)
qed

lemma pack_nth:
  assumes "i < length array"
  shows "pack array ! (3 * i) = vx (array ! i)"
    and "pack array ! (3 * i + 1) = vy (array ! i)"
    and "pack array ! (3 * i + 2) = vz (array ! i)"
  using pack_upto_nth [of "length array" "replicate (length array * 3) 0" array] assms
  by (simp_all add: pack_def pack_upto_def)

lemma reshape_pack:
  assumes "length arr0 = length array"
  shows "reshape (length array) (pack array) arr0 = array"
proof (rule nth_equalityI)
  show "length (reshape (length array) (pack array) arr0) = length array"
    using assms by (simp add: reshape_length)
next
  fix i assume "i < length (reshape (length array) (pack array) arr0)"
  then have i: "i < length array" using assms by (simp add: reshape_length)
  then show "reshape (length array) (pack array) arr0 ! i = array ! i"
    using assms pack_nth [OF i] by (simp add: reshape_nth)
qed

lemma reshape_pack_eq:
  "natoms = length array \<Longrightarrow> length arr0 = natoms \<Longrightarrow>
   reshape natoms (pack array) arr0 = array"
  using reshape_pack [of arr0 array] by simp

subsection \<open>The first write of a fresh handle\<close>

lemmas init_defs = initialized_def initialize_def NcFile_create_def stmt_def set_nc_mode_def
  add_global_attribute_def add_dimension_def add_variable_def add_string_attribute_def
  add_chars_def

lemma initialize_fresh:
  "initialize cfg (NcFile_create p) natoms wv = Done (initialized cfg p natoms wv)"
  by (simp add: init_defs)

lemma initialized_nc_mode: "nc_mode (initialized cfg p natoms wv) = DATA"
  by (simp add: init_defs)

lemma initialized_global_attributes:
  "global_attributes (initialized cfg p natoms wv) ''Conventions'' = Some ''AMBERRESTART''"
  "global_attributes (initialized cfg p natoms wv) ''ConventionVersion'' = Some ''1.0''"
  by (simp_all add: init_defs)

lemma initialized_dimensions:
  "dimensions (initialized cfg p natoms wv) ''spatial'' = Some 3"
  "dimensions (initialized cfg p natoms wv) ''atom'' = Some natoms"
  "dimensions (initialized cfg p natoms wv) ''cell_spatial'' = Some 3"
  "dimensions (initialized cfg p natoms wv) ''cell_angular'' = Some 3"
  by (simp_all add: init_defs)

lemma initialized_variables:
  "variables (initialized cfg p natoms wv) ''coordinates'' =
     Some \<lparr>dims = [''atom'', ''spatial''],
           attributes = [''units'' \<mapsto> StringAttribute ''angstrom''], data = DoubleData []\<rparr>"
  "variables (initialized cfg p natoms wv) ''cell_lengths'' =
     Some \<lparr>dims = [''cell_spatial''],
           attributes = [''units'' \<mapsto> StringAttribute ''angstrom''], data = DoubleData []\<rparr>"
  "variables (initialized cfg p natoms wv) ''cell_angles'' =
     Some \<lparr>dims = [''cell_angular''],
           attributes = [''units'' \<mapsto> StringAttribute ''degree''], data = DoubleData []\<rparr>"
  "variables (initialized cfg p natoms wv) ''velocities'' =
     (if wv then Some \<lparr>dims = [''atom'', ''spatial''],
                        attributes = [''units'' \<mapsto> StringAttribute ''angstrom/picosecond''],
                        data = DoubleData []\<rparr>
      else None)"
  by (simp_all add: init_defs)

lemmas initialized_simps = initialized_nc_mode initialized_global_attributes
  initialized_dimensions initialized_variables

lemma is_valid_initialized: "is_valid (initialized cfg p natoms wv) natoms = Inr True"
  by (simp add: is_valid_def global_attribute_def dimension_def initialized_simps)

lemma write_validate_fresh:
  "write_validate cfg natoms wv (fresh p) =
     Done \<lparr>ncfile = initialized cfg p natoms wv, step_done = False, validated = True\<rparr>"
  by (simp add: write_validate_def fresh_def initialize_fresh is_valid_initialized)

lemmas write_defs = write_data_def write_cell_def write_array_def stmt_def variable_def add_def
  bounds_match_def length_pack frame_size_def Let_def

lemma write_data_initialized:
  assumes "frame_wf frame"
  shows "write_data U frame (initialized cfg p (frame_size frame) (velocities frame \<noteq> None))
           = Done (written cfg U frame p)"
  using assms
  by (cases "velocities frame")
     (simp_all add: written_def frame_wf_def write_defs initialized_simps)

lemma written_schema:
  assumes "frame_wf frame"
  shows "nc_mode (written cfg U frame p) = DATA"
    and "global_attributes (written cfg U frame p) ''Conventions'' = Some ''AMBERRESTART''"
    and "global_attributes (written cfg U frame p) ''ConventionVersion'' = Some ''1.0''"
    and "dimensions (written cfg U frame p) ''spatial'' = Some 3"
    and "dimensions (written cfg U frame p) ''atom'' = Some (length (positions frame))"
    and "dimensions (written cfg U frame p) ''cell_spatial'' = Some 3"
    and "dimensions (written cfg U frame p) ''cell_angular'' = Some 3"
  using assms
  by (cases "velocities frame";
      simp add: written_def frame_wf_def write_defs initialized_simps)+

lemma written_variables:
  assumes "frame_wf frame"
  shows "variables (written cfg U frame p) ''coordinates'' =
           Some \<lparr>dims = [''atom'', ''spatial''],
                 attributes = [''units'' \<mapsto> StringAttribute ''angstrom''],
                 data = DoubleData (pack (positions frame))\<rparr>"
    and "variables (written cfg U frame p) ''cell_lengths'' =
           Some \<lparr>dims = [''cell_spatial''],
                 attributes = [''units'' \<mapsto> StringAttribute ''angstrom''],
                 data = DoubleData [cell_a U (cell frame), cell_b U (cell frame),
                                    cell_c U (cell frame)]\<rparr>"
    and "variables (written cfg U frame p) ''cell_angles'' =
           Some \<lparr>dims = [''cell_angular''],
                 attributes = [''units'' \<mapsto> StringAttribute ''degree''],
                 data = DoubleData [cell_alpha U (cell frame), cell_beta U (cell frame),
                                    cell_gamma U (cell frame)]\<rparr>"
    and "variables (written cfg U frame p) ''velocities'' =
           map_option (\<lambda>vs. \<lparr>dims = [''atom'', ''spatial''],
                 attributes = [''units'' \<mapsto> StringAttribute ''angstrom/picosecond''],
                 data = DoubleData (pack vs)\<rparr>) (velocities frame)"
  using assms
  by (cases "velocities frame";
      simp add: written_def frame_wf_def write_defs initialized_simps)+

lemma fresh_sel:
  "step_done (fresh p) = False" "validated (fresh p) = False" "ncfile (fresh p) = NcFile_create p"
  by (simp_all add: fresh_def)

lemma write_frame_fresh:
  assumes "frame_wf frame"
  shows "write_frame cfg U frame (fresh p) =
           Done \<lparr>ncfile = written cfg U frame p, step_done = True, validated = True\<rparr>"
  using write_data_initialized [OF assms, of U cfg p]
  by (simp add: write_frame_def fresh_sel write_validate_fresh Let_def)

subsection \<open>Reading the written container\<close>

lemma reopen_sel:
  "mode (NcFile_reopen f) = READ" "nc_mode (NcFile_reopen f) = DATA"
  "path (NcFile_reopen f) = path f"
  "global_attributes (NcFile_reopen f) = global_attributes f"
  "dimensions (NcFile_reopen f) = dimensions f"
  "variables (NcFile_reopen f) = variables f"
  by (simp_all add: NcFile_reopen_def)

lemma open_written:
  assumes "frame_wf frame"
  shows "AmberRestartFormat (NcFile_reopen (written cfg U frame p)) DEFAULT =
           Inr \<lparr>ncfile = NcFile_reopen (written cfg U frame p), step_done = False,
                validated = True\<rparr>"
  by (simp add: AmberRestartFormat_def is_valid_def global_attribute_def dimension_def
        reopen_sel written_schema [OF assms] Let_def)

lemmas read_defs = read_def read_step_def read_cell_def read_array_def and_then_def
  scaled_cell_values_def scaled_values_def set_cell_def resize_def resize_array_def
  Frame_default_def add_velocities_def frame_size_def Let_def
  variable_def get_def bounds_match_def dimension_def optional_dimension_def
  variable_exists_def attribute_exists_def

lemma read_written:
  assumes "frame_wf frame"
  shows "read U to_float (\<lparr>ncfile = NcFile_reopen (written cfg U frame p), step_done = False,
                   validated = True\<rparr>, Frame_default U) =
           Done (\<lparr>ncfile = NcFile_reopen (written cfg U frame p), step_done = True,
                   validated = True\<rparr>, frame\<lparr>cell := rebuilt U (cell frame)\<rparr>)"
proof (cases "velocities frame")
  case None
  then show ?thesis
    by (simp add: read_defs reopen_sel written_schema [OF assms] written_variables [OF assms]
          length_pack reshape_pack_eq rebuilt_def)
next
  case (Some vs)
  with assms have "length vs = length (positions frame)" by (simp add: frame_wf_def)
  with Some show ?thesis
    by (simp add: read_defs reopen_sel written_schema [OF assms] written_variables [OF assms]
          length_pack reshape_pack_eq rebuilt_def)
qed

lemma roundtrip_frame:
  assumes "frame_wf frame"
  shows "roundtrip cfg U to_float frame p = Inr (frame\<lparr>cell := rebuilt U (cell frame)\<rparr>)"
  by (simp add: roundtrip_def write_frame_fresh [OF assms] open_written [OF assms]
        read_written [OF assms])

lemmas example_defs = scaled_def no_spatial_def no_atom_def cells_def build_def four_atoms_def

subsection \<open>What the container operations return\<close>

lemma upt_0_2: "[0..<2] = [0, 1]"
  by (simp add: numeral_2_eq_2)

lemma variable_Inr: "variable f ty name = Inr v \<Longrightarrow> v = name"
  by (auto simp: variable_def split: option.splits if_splits)

lemma get_length: "get f var start count = Inr d \<Longrightarrow> length d = prod_list count"
  by (auto simp: get_def split: option.splits if_splits NcData.splits)

lemma scaled_values_spec:
  "scaled_values to_float f var raw = Inr xs \<Longrightarrow> xs = map (spec_scale to_float f var) raw"
  by (auto simp: scaled_values_def attribute_exists_def float_attribute_def spec_scale_def
        split: option.splits if_splits NcAttribute.splits sum.splits
        intro!: nth_equalityI)

lemma scaled_cell_values_spec:
  "scaled_cell_values to_float f var [x0, x1, x2] = Inr xs \<Longrightarrow>
   xs = [spec_scale to_float f var x0, spec_scale to_float f var x1, spec_scale to_float f var x2]"
  by (auto simp: scaled_cell_values_def scale_triple_def attribute_exists_def
        float_attribute_def spec_scale_def
        split: option.splits if_splits NcAttribute.splits sum.splits)

lemma length_3: "length xs = 3 \<Longrightarrow> \<exists>x0 x1 x2. xs = [x0, x1, x2]"
  by (cases xs; simp; cases "tl xs"; simp; cases "tl (tl xs)"; simp)

subsection \<open>The constructor, mode by mode\<close>

lemma constructor_read:
  "mode f = READ \<Longrightarrow> AmberRestartFormat f compression =
     (case is_valid f size_t_max of
        Inl e \<Rightarrow> Inl e
      | Inr ok \<Rightarrow>
          if \<not> ok
          then Inl (format_error (''invalid AMBER Restart file at '' @ [CHR 0x27] @ path f
                                  @ [CHR 0x27]))
          else if compression \<noteq> DEFAULT
          then Inl (format_error ''compression is not supported with NetCDF format'')
          else Inr \<lparr>ncfile = f, step_done = False, validated = True\<rparr>)"
  by (cases "is_valid f size_t_max") (simp_all add: AmberRestartFormat_def Let_def)

lemma constructor_append:
  "mode f = APPEND \<Longrightarrow> AmberRestartFormat f compression =
     Inl (format_error ''append mode ('a') is not supported with AMBER Restart format'')"
  by (simp add: AmberRestartFormat_def Let_def)

lemma constructor_write:
  "mode f = WRITE \<Longrightarrow> AmberRestartFormat f compression =
     (if compression \<noteq> DEFAULT
      then Inl (format_error ''compression is not supported with NetCDF format'')
      else Inr \<lparr>ncfile = f, step_done = False, validated = False\<rparr>)"
  by (cases "compression = DEFAULT") (simp_all add: AmberRestartFormat_def Let_def)

lemma is_valid_variables: "is_valid (f\<lparr>variables := vs\<rparr>) natoms = is_valid f natoms"
  by (auto simp: is_valid_def global_attribute_def dimension_def Let_def split: option.splits)

subsection \<open>Reading the example container\<close>

lemma read_cell_scaled: "read_cell cells float32 scaled = Inr (UnitCell ORTHORHOMBIC 15 15 15 90 90 90)"
  by (simp add: read_cell_def and_then_def variable_exists_def optional_dimension_def
        variable_def get_def bounds_match_def scaled_cell_values_def attribute_exists_def
        float_attribute_def float32_2 float32_3 scale_triple_def scaled_def cells_def)

lemma read_step_nonzero:
  "step \<noteq> 0 \<Longrightarrow> read_step U to_float step (this, frame) = Thrown single_frame_read (this, frame)"
  by (simp add: read_step_def single_frame_read_def)

lemma read_step_ignores_flag:
  "read_step U to_float 0 (this, frame) = Done st \<Longrightarrow>
   read_step U to_float 0 (this\<lparr>step_done := b\<rparr>, frame) = Done st"
  by (auto simp: read_step_def Let_def split: sum.splits option.splits if_splits)

lemma read_step_scaled:
  "read_step cells float32 0 (\<lparr>ncfile = scaled, step_done = b, validated = True\<rparr>, Frame_default cells)
     = Done (\<lparr>ncfile = scaled, step_done = True, validated = True\<rparr>,
             \<lparr>positions = [Vector3D 2 4 6, Vector3D 8 10 12], velocities = None,
              cell = UnitCell ORTHORHOMBIC 15 15 15 90 90 90\<rparr>)"
proof -
  have a: "dimension scaled ''atom'' = Inr 2" by (simp add: dimension_def scaled_def)
  have c: "read_array float32 scaled (replicate 2 (Vector3D 0 0 0)) ''coordinates'' =
     Inr [Vector3D 2 4 6, Vector3D 8 10 12]"
    by (simp add: read_array_def and_then_def variable_def dimension_def get_def
          bounds_match_def scaled_values_def attribute_exists_def float_attribute_def float32_2 float32_3
          reshape_def upt_0_2 scaled_def numeral_2_eq_2)
  have v: "\<not> variable_exists scaled ''velocities''"
    by (simp add: variable_exists_def scaled_def)
  show ?thesis
    using a c v
    by (simp add: read_step_def read_cell_scaled set_cell_def resize_def resize_array_def
          Frame_default_def)
qed

subsection \<open>Writing through any handle\<close>

lemma frame_wf_examples: "frame_wf four_atoms" "frame_wf water_frame"
  "frame_wf (Frame_default U)"
  by (simp_all add: frame_wf_def four_atoms_def water_frame_def Frame_default_def)

lemma write_frame_Done_step_done:
  "write_frame cfg U frame this = Done this' \<Longrightarrow> step_done this'"
  by (auto simp: write_frame_def Let_def split: if_splits outcome.splits)

lemma write_frame_consumed:
  "step_done this \<Longrightarrow> write_frame cfg U frame this = Thrown single_frame_write this"
  by (simp add: write_frame_def single_frame_write_def)

lemma write_cell_Done:
  assumes "write_cell U c f = Done f'"
  shows "\<exists>lv av.
           variables f' ''cell_lengths'' = Some lv \<and>
           data lv = DoubleData [cell_a U c, cell_b U c, cell_c U c] \<and>
           variables f' ''cell_angles'' = Some av \<and>
           data av = DoubleData [cell_alpha U c, cell_beta U c, cell_gamma U c]"
proof -
  from assms obtain f1 where
    1: "add ''cell_lengths'' [0] [3] [cell_a U c, cell_b U c, cell_c U c] f = Inr f1" and
    2: "add ''cell_angles'' [0] [3] [cell_alpha U c, cell_beta U c, cell_gamma U c] f1 = Inr f'"
    by (auto simp: write_cell_def variable_def stmt_def Let_def
          split: sum.splits option.splits if_splits outcome.splits)
  from 1 obtain lv where lv: "variables f1 ''cell_lengths'' = Some lv"
      "data lv = DoubleData [cell_a U c, cell_b U c, cell_c U c]"
    by (auto simp: add_def split: option.splits if_splits NcData.splits)
  from 2 obtain av where av: "variables f' ''cell_angles'' = Some av"
      "data av = DoubleData [cell_alpha U c, cell_beta U c, cell_gamma U c]"
      and keep: "variables f' ''cell_lengths'' = variables f1 ''cell_lengths''"
    by (auto simp: add_def split: option.splits if_splits NcData.splits)
  with lv show ?thesis by simp
qed

lemma write_array_other:
  "write_array array name f = Done f' \<Longrightarrow> n \<noteq> name \<Longrightarrow> variables f' n = variables f n"
  by (auto simp: write_array_def variable_def stmt_def add_def Let_def
        split: sum.splits option.splits if_splits NcData.splits)

lemma write_data_Done:
  assumes "write_data U frame f = Done f'"
  shows "\<exists>lv av.
           variables f' ''cell_lengths'' = Some lv \<and>
           data lv = DoubleData [cell_a U (cell frame), cell_b U (cell frame),
                                 cell_c U (cell frame)] \<and>
           variables f' ''cell_angles'' = Some av \<and>
           data av = DoubleData [cell_alpha U (cell frame), cell_beta U (cell frame),
                                 cell_gamma U (cell frame)]"
proof -
  from assms obtain f1 f2 where
    1: "write_cell U (cell frame) f = Done f1" and
    2: "write_array (positions frame) ''coordinates'' f1 = Done f2" and
    3: "f' = f2 \<or> (\<exists>vs. write_array vs ''velocities'' f2 = Done f')"
    by (auto simp: write_data_def split: outcome.splits option.splits)
  have k2: "variables f2 n = variables f1 n" if "n \<noteq> ''coordinates''" for n
    using write_array_other [OF 2 that] .
  have k3: "variables f' n = variables f2 n" if "n \<noteq> ''velocities''" for n
    using 3 that by (auto dest: write_array_other)
  have "variables f' ''cell_lengths'' = variables f1 ''cell_lengths'' \<and>
        variables f' ''cell_angles'' = variables f1 ''cell_angles''"
    by (simp add: k2 k3)
  with write_cell_Done [OF 1] show ?thesis by simp
qed

lemma write_frame_Done_data:
  "write_frame cfg U frame this = Done this' \<Longrightarrow>
   \<exists>f. write_data U frame f = Done (ncfile this')"
  by (auto simp: write_frame_def Let_def split: if_splits outcome.splits)

lemma initialize_declares:
  assumes "initialize cfg f natoms wv = Done f'"
  shows "\<exists>lv av. variables f' ''cell_lengths'' = Some lv \<and> dims lv = [''cell_spatial''] \<and>
                 variables f' ''cell_angles'' = Some av \<and> dims av = [''cell_angular'']"
proof (cases "nc_mode f = DEFINE")
  case True
  with assms show ?thesis
    by (cases wv) (auto simp: initialize_def stmt_def set_nc_mode_def add_global_attribute_def
          add_dimension_def add_variable_def add_string_attribute_def add_chars_def)
next
  case False
  with assms show ?thesis
    by (simp add: initialize_def stmt_def set_nc_mode_def)
qed

subsection \<open>A read that stops half way\<close>

lemma resize_cell: "cell (resize n frame) = cell frame"
  by (simp add: resize_def)

lemma read_array_no_variable:
  "variable f NcDouble name = Inl e \<Longrightarrow> read_array to_float f array name = Inl e"
  by (simp add: read_array_def and_then_def)

lemma read_cell_no_atom: "read_cell cells float32 no_atom = Inr (UnitCell ORTHORHOMBIC 15 15 15 90 90 90)"
  by (simp add: read_cell_def and_then_def variable_exists_def optional_dimension_def
        variable_def get_def bounds_match_def scaled_cell_values_def attribute_exists_def
        float_attribute_def float32_2 float32_3 scale_triple_def scaled_def no_atom_def cells_def)

lemma read_cell_no_coordinates:
  "read_cell cells float32 no_coordinates = Inr (UnitCell ORTHORHOMBIC 15 15 15 90 90 90)"
  by (simp add: read_cell_def and_then_def variable_exists_def optional_dimension_def
        variable_def get_def bounds_match_def scaled_cell_values_def attribute_exists_def
        float_attribute_def float32_2 float32_3 scale_triple_def scaled_def no_coordinates_def cells_def)

subsection \<open>The assertions never fail\<close>

text \<open>
  The assertions of the source are branches of the model. None of them is ever taken:
  \<open>initialize\<close> leaves a valid container, \<open>get\<close> returns as many values as were asked
  for, and \<open>read_step\<close> hands \<open>read_array\<close> arrays of the size of the \<open>atom\<close> dimension. So
  \<open>read_step\<close> and \<open>write\<close> throw their own single-frame error or an error of the
  container, with assertions compiled in or out.
\<close>

lemma initialize_then_valid:
  assumes "initialize cfg f natoms wv = Done f'"
  shows "is_valid f' natoms = Inr True"
proof (cases "nc_mode f = DEFINE")
  case True
  with assms show ?thesis
    by (cases wv) (auto simp: initialize_def stmt_def set_nc_mode_def add_global_attribute_def
          add_dimension_def add_variable_def add_string_attribute_def add_chars_def
          is_valid_def global_attribute_def dimension_def)
next
  case False
  with assms show ?thesis
    by (simp add: initialize_def stmt_def set_nc_mode_def)
qed

lemma variable_error: "variable f ty name = Inl e \<Longrightarrow> container_error e"
  by (auto simp: variable_def split: option.splits if_splits)

lemma dimension_error: "dimension f name = Inl e \<Longrightarrow> container_error e"
  by (auto simp: dimension_def split: option.splits)

lemma get_error: "get f var start count = Inl e \<Longrightarrow> container_error e"
  by (auto simp: get_def split: option.splits if_splits NcData.splits)

lemma add_error: "add var start count buf f = Inl e \<Longrightarrow> container_error e"
  by (auto simp: add_def split: option.splits if_splits NcData.splits)

lemma float_attribute_error: "float_attribute f var name = Inl e \<Longrightarrow> container_error e"
  by (auto simp: float_attribute_def split: option.splits NcAttribute.splits)

lemma scaled_cell_values_error: "scaled_cell_values to_float f var xs = Inl e \<Longrightarrow> container_error e"
  by (auto simp: scaled_cell_values_def dest: float_attribute_error split: if_splits sum.splits)

lemma scaled_values_error: "scaled_values to_float f var xs = Inl e \<Longrightarrow> container_error e"
  by (auto simp: scaled_values_def dest: float_attribute_error split: if_splits sum.splits)

lemma read_cell_error:
  assumes "read_cell U to_float f = Inl e"
  shows "container_error e"
proof -
  have len: "length xs = 3" if "get f v [0] [3] = Inr xs" for v xs
    using get_length [OF that] by simp
  from assms show ?thesis
    unfolding read_cell_def and_then_def
    by (auto split: if_splits sum.splits
          dest: variable_error get_error scaled_cell_values_error len)
qed

lemma read_array_error:
  assumes "read_array to_float f array name = Inl e" and "dimension f ''atom'' = Inr (length array)"
  shows "container_error e"
  using assms unfolding read_array_def and_then_def
  by (auto split: if_splits sum.splits
        dest: variable_error get_error scaled_values_error)

lemma read_array_length:
  "read_array to_float f array name = Inr out \<Longrightarrow> length out = length array"
  unfolding read_array_def and_then_def
  by (auto split: if_splits sum.splits simp: reshape_length)

lemma length_resize_array: "length (resize_array n xs) = n"
  by (simp add: resize_array_def)


lemma read_array_error_positions:
  "read_array to_float f (positions (resize n fr)) name = Inl e \<Longrightarrow> dimension f ''atom'' = Inr n \<Longrightarrow>
   container_error e"
  using read_array_error [of to_float f "positions (resize n fr)" name e]
  by (simp add: resize_def length_resize_array)

lemma add_velocities_length:
  assumes "velocities (add_velocities ((resize n fr)\<lparr>positions := ps\<rparr>)) = Some vs0"
    and "length ps = n"
  shows "length vs0 = n"
  using assms
  by (auto simp: add_velocities_def resize_def frame_size_def length_resize_array
        split: option.splits)

lemma add_velocities_Some: "velocities (add_velocities fr) \<noteq> None"
  by (simp add: add_velocities_def split: option.splits)

lemma read_step_throws:
  assumes "read_step U to_float step (this, frame) = Thrown e st"
  shows "e = single_frame_read \<or> container_error e"
proof (cases "step = 0")
  case False
  with assms show ?thesis by (simp add: read_step_def single_frame_read_def)
next
  case True
  have vel: "container_error e'"
    if "dimension (ncfile this) ''atom'' = Inr n"
      and "read_array to_float (ncfile this) (positions (resize n (set_cell c frame))) ''coordinates''
             = Inr ps"
      and "velocities (add_velocities ((resize n (set_cell c frame))\<lparr>positions := ps\<rparr>))
             = Some vs0"
      and "read_array to_float (ncfile this) vs0 ''velocities'' = Inl e'" for n c ps vs0 e'
  proof -
    have "length ps = n"
      using read_array_length [OF that(2)] by (simp add: resize_def length_resize_array)
    then have "length vs0 = n" using add_velocities_length [OF that(3)] by simp
    with that(1,4) show ?thesis by (auto intro: read_array_error)
  qed
  from assms True show ?thesis
    unfolding read_step_def Let_def
    by (auto split: sum.splits option.splits if_splits
          simp: add_velocities_Some
          dest: read_cell_error dimension_error read_array_error_positions vel)
qed

lemma stmt_throws:
  "stmt op s = Thrown e s' \<Longrightarrow> \<exists>e0. op s = Inl e0 \<and> e = e0"
  by (auto simp: stmt_def split: sum.splits)

lemma write_array_throws: "write_array array name f = Thrown e f' \<Longrightarrow> container_error e"
  by (auto simp: write_array_def Let_def stmt_def split: sum.splits
        dest: variable_error add_error)

lemma write_cell_throws: "write_cell U c f = Thrown e f' \<Longrightarrow> container_error e"
  by (auto simp: write_cell_def Let_def stmt_def split: sum.splits outcome.splits
        dest: variable_error add_error)

lemma write_data_throws: "write_data U frame f = Thrown e f' \<Longrightarrow> container_error e"
  by (auto simp: write_data_def split: outcome.splits option.splits
        dest: write_cell_throws write_array_throws)

lemma run_all_throws:
  assumes "run_all sts s = Thrown e s'"
    and "\<And>st s e s'. st \<in> set sts \<Longrightarrow> st s = Thrown e s' \<Longrightarrow> P e"
  shows "P e"
  using assms
proof (induction sts arbitrary: s)
  case Nil
  then show ?case by simp
next
  case (Cons st sts)
  show ?case
  proof (cases "st s")
    case (Done s1)
    with Cons.prems(1) have "run_all sts s1 = Thrown e s'" by simp
    then show ?thesis using Cons.IH Cons.prems(2) by (metis list.set_intros(2))
  next
    case (Thrown e1 s1)
    with Cons.prems(1) have "e1 = e" by simp
    with Thrown show ?thesis using Cons.prems(2) [of st s e s1] by simp
  qed
qed

lemma initialize_throws: "initialize cfg f natoms wv = Thrown e f' \<Longrightarrow> container_error e"
  unfolding initialize_def
  by (erule run_all_throws)
     (auto simp: stmt_def set_nc_mode_def add_global_attribute_def add_dimension_def
        add_variable_def add_string_attribute_def add_chars_def
        split: sum.splits if_splits option.splits NcData.splits)

lemma is_valid_error: "is_valid f natoms = Inl e \<Longrightarrow> container_error e"
  by (auto simp: is_valid_def Let_def split: if_splits sum.splits dest: dimension_error)

lemma write_validate_throws:
  "write_validate cfg natoms wv this = Thrown e this' \<Longrightarrow> container_error e"
  by (auto simp: write_validate_def split: if_splits outcome.splits sum.splits
        dest: initialize_throws is_valid_error initialize_then_valid)

lemma write_frame_throws:
  "write_frame cfg U frame this = Thrown e this' \<Longrightarrow> e = single_frame_write \<or> container_error e"
  by (auto simp: write_frame_def Let_def single_frame_write_def
        split: if_splits outcome.splits
        dest: write_validate_throws write_data_throws)

subsection \<open>The example containers at construction and under single precision\<close>

lemma is_valid_scaled: "is_valid scaled size_t_max = Inr True"
  by (simp add: is_valid_def global_attribute_def dimension_def scaled_def)

lemma is_valid_no_spatial: "is_valid no_spatial size_t_max = Inl LookupError"
  by (simp add: is_valid_def global_attribute_def dimension_def scaled_def no_spatial_def)

lemma mode_examples: "mode scaled = READ" "mode no_spatial = READ" "path scaled = ''scaled.ncrst''"
  by (simp_all add: scaled_def no_spatial_def)

lemma float32_fine_numeral: "float32 (1073741825 / 1073741824) = 1"
  using float32_fine by simp

lemma read_array_fine:
  "read_array float32 fine [Vector3D 0 0 0] ''coordinates'' = Inr [Vector3D (2 ^ 30) 0 0]"
  by (simp add: read_array_def and_then_def variable_def dimension_def get_def
        bounds_match_def scaled_values_def attribute_exists_def float_attribute_def
        reshape_def fine_def float32_fine_numeral)

lemma read_cell_fine:
  "read_cell cells float32 fine = Inr (UnitCell ORTHORHOMBIC (2 ^ 30) (2 ^ 30) (2 ^ 30) 90 90 90)"
  by (simp add: read_cell_def and_then_def variable_exists_def optional_dimension_def
        variable_def get_def bounds_match_def scaled_cell_values_def attribute_exists_def
        float_attribute_def float32_fine_numeral scale_triple_def fine_def cells_def)

section \<open>The claims\<close>

subsection \<open>C1: one frame to read\<close>

text \<open>
  Claim C1, amended. \<open>read_step\<close> throws the single-frame error whenever the step is not 0,
  whatever the state of the handle. With step 0 it does not consult the flag that records
  that the frame was consumed: a \<open>read_step(0)\<close> that succeeds on a handle succeeds with the
  same result on the handle whose frame was already consumed. \<open>read\<close> throws the same
  single-frame error when the frame was already consumed, and otherwise is \<open>read_step(0)\<close>.
\<close>

theorem read_single_frame:
  "(step \<noteq> 0 \<longrightarrow> read_step U to_float step (this, frame) = Thrown single_frame_read (this, frame))
   \<and> (step_done this \<longrightarrow> read U to_float (this, frame) = Thrown single_frame_read (this, frame))
   \<and> (\<not> step_done this \<longrightarrow> read U to_float (this, frame) = read_step U to_float 0 (this, frame))
   \<and> (read_step U to_float 0 (this, frame) = Done st \<longrightarrow>
        read_step U to_float 0 (this\<lparr>step_done := True\<rparr>, frame) = Done st)"
  using read_step_ignores_flag [of U to_float this frame st True]
  by (simp add: read_step_nonzero read_def single_frame_read_def)

theorem read_single_frame_witness:
  "read_step cells float32 1 (\<lparr>ncfile = scaled, step_done = False, validated = True\<rparr>, Frame_default cells)
     = Thrown single_frame_read
         (\<lparr>ncfile = scaled, step_done = False, validated = True\<rparr>, Frame_default cells)
   \<and> read cells float32 (\<lparr>ncfile = scaled, step_done = True, validated = True\<rparr>, Frame_default cells)
     = Thrown single_frame_read
         (\<lparr>ncfile = scaled, step_done = True, validated = True\<rparr>, Frame_default cells)
   \<and> read cells float32 (\<lparr>ncfile = scaled, step_done = False, validated = True\<rparr>, Frame_default cells)
     = Done (\<lparr>ncfile = scaled, step_done = True, validated = True\<rparr>,
             \<lparr>positions = [Vector3D 2 4 6, Vector3D 8 10 12], velocities = None,
              cell = UnitCell ORTHORHOMBIC 15 15 15 90 90 90\<rparr>)
   \<and> read_step cells float32 0 (\<lparr>ncfile = scaled, step_done = True, validated = True\<rparr>, Frame_default cells)
     = Done (\<lparr>ncfile = scaled, step_done = True, validated = True\<rparr>,
             \<lparr>positions = [Vector3D 2 4 6, Vector3D 8 10 12], velocities = None,
              cell = UnitCell ORTHORHOMBIC 15 15 15 90 90 90\<rparr>)"
proof -
  let ?st = "(\<lparr>ncfile = scaled, step_done = True, validated = True\<rparr>,
             \<lparr>positions = [Vector3D 2 4 6, Vector3D 8 10 12], velocities = None,
              cell = UnitCell ORTHORHOMBIC 15 15 15 90 90 90 :: real UnitCell\<rparr>)"
  note t1 = read_single_frame [of 1 cells float32 "\<lparr>ncfile = scaled, step_done = False, validated = True\<rparr>"
              "Frame_default cells" ?st]
  note t2 = read_single_frame [of 0 cells float32 "\<lparr>ncfile = scaled, step_done = True, validated = True\<rparr>"
              "Frame_default cells" ?st]
  note t3 = read_single_frame [of 0 cells float32 "\<lparr>ncfile = scaled, step_done = False, validated = True\<rparr>"
              "Frame_default cells" ?st]
  have 1: "read_step cells float32 1 (\<lparr>ncfile = scaled, step_done = False, validated = True\<rparr>, Frame_default cells)
     = Thrown single_frame_read
         (\<lparr>ncfile = scaled, step_done = False, validated = True\<rparr>, Frame_default cells)"
    using t1 by simp
  have 2: "read cells float32 (\<lparr>ncfile = scaled, step_done = True, validated = True\<rparr>, Frame_default cells)
     = Thrown single_frame_read
         (\<lparr>ncfile = scaled, step_done = True, validated = True\<rparr>, Frame_default cells)"
    using t2 by simp
  have 3: "read cells float32 (\<lparr>ncfile = scaled, step_done = False, validated = True\<rparr>, Frame_default cells)
     = Done ?st"
    using t3 read_step_scaled [of False] by simp
  have 4: "read_step cells float32 0 (\<lparr>ncfile = scaled, step_done = True, validated = True\<rparr>, Frame_default cells)
     = Done ?st"
    using t3 read_step_scaled [of False] by simp
  from 1 2 3 4 show ?thesis by blast
qed

text \<open>
  Claim C1 as stated fails on a handle whose frame was already consumed: after a \<open>read\<close>
  that succeeded, \<open>read_step(0)\<close> on the handle it left does not throw, it reads the frame
  again.
\<close>

theorem read_step_counterexample:
  "read cells float32 (\<lparr>ncfile = scaled, step_done = False, validated = True\<rparr>, Frame_default cells)
     = Done (\<lparr>ncfile = scaled, step_done = True, validated = True\<rparr>,
             \<lparr>positions = [Vector3D 2 4 6, Vector3D 8 10 12], velocities = None,
              cell = UnitCell ORTHORHOMBIC 15 15 15 90 90 90\<rparr>)
   \<and> read_step cells float32 0
         (\<lparr>ncfile = scaled, step_done = True, validated = True\<rparr>, Frame_default cells)
     = Done (\<lparr>ncfile = scaled, step_done = True, validated = True\<rparr>,
             \<lparr>positions = [Vector3D 2 4 6, Vector3D 8 10 12], velocities = None,
              cell = UnitCell ORTHORHOMBIC 15 15 15 90 90 90\<rparr>)"
  using read_step_scaled [of False] read_step_scaled [of True] by (simp add: read_def)

subsection \<open>C2: the unit cell\<close>

text \<open>
  Claim C2. When either of the variables \<open>cell_lengths\<close> and \<open>cell_angles\<close> is absent, or
  either of the dimensions \<open>cell_spatial\<close> and \<open>cell_angular\<close> is absent or not of size 3,
  \<open>read_cell\<close> returns the default cell and raises no error. Otherwise, when it returns, it
  has read the two arrays of three values, has multiplied the three lengths by the
  \<open>scale_factor\<close> of \<open>cell_lengths\<close> when there is one and the three angles by the
  \<open>scale_factor\<close> of \<open>cell_angles\<close> when there is one (each factor as the \<open>float\<close> it is
  read into), and returns the cell that the constructor builds from the six resulting
  values.
\<close>

theorem read_cell_result:
  "(cell_data_missing f \<longrightarrow> read_cell U to_float f = Inr (UnitCell_default U)) \<and>
   (\<not> cell_data_missing f \<longrightarrow> read_cell U to_float f = Inr c \<longrightarrow>
      (\<exists>l0 l1 l2 a0 a1 a2.
         get f ''cell_lengths'' [0] [3] = Inr [l0, l1, l2] \<and>
         get f ''cell_angles'' [0] [3] = Inr [a0, a1, a2] \<and>
         c = UnitCell_six U (spec_scale to_float f ''cell_lengths'' l0) (spec_scale to_float f ''cell_lengths'' l1)
                            (spec_scale to_float f ''cell_lengths'' l2)
                            (spec_scale to_float f ''cell_angles'' a0) (spec_scale to_float f ''cell_angles'' a1)
                            (spec_scale to_float f ''cell_angles'' a2)))"
proof (intro conjI impI)
  assume "cell_data_missing f"
  then show "read_cell U to_float f = Inr (UnitCell_default U)"
    by (auto simp: cell_data_missing_def read_cell_def variable_exists_def
          optional_dimension_def split: option.splits)
next
  assume present: "\<not> cell_data_missing f" and c: "read_cell U to_float f = Inr c"
  from present have guard:
    "\<not> (\<not> variable_exists f ''cell_lengths'' \<or> \<not> variable_exists f ''cell_angles'')"
    "\<not> (optional_dimension f ''cell_spatial'' 0 \<noteq> 3 \<or>
        optional_dimension f ''cell_angular'' 0 \<noteq> 3)"
    by (auto simp: cell_data_missing_def variable_exists_def optional_dimension_def)
  from c guard obtain lv av ls as ls' as' where
    lv: "variable f NcDouble ''cell_lengths'' = Inr lv" and
    av: "variable f NcDouble ''cell_angles'' = Inr av" and
    ls: "get f lv [0] [3] = Inr ls" and
    as: "get f av [0] [3] = Inr as" and
    ls': "scaled_cell_values to_float f lv ls = Inr ls'" and
    as': "scaled_cell_values to_float f av as = Inr as'" and
    c_eq: "c = UnitCell_six U (ls' ! 0) (ls' ! 1) (ls' ! 2) (as' ! 0) (as' ! 1) (as' ! 2)"
    unfolding read_cell_def and_then_def
    by (simp split: sum.splits if_splits)
  have names: "lv = ''cell_lengths''" "av = ''cell_angles''"
    using lv av by (auto dest: variable_Inr)
  obtain l0 l1 l2 where l: "ls = [l0, l1, l2]"
    using get_length [OF ls] length_3 [of ls] by auto
  obtain a0 a1 a2 where a: "as = [a0, a1, a2]"
    using get_length [OF as] length_3 [of as] by auto
  have "ls' = [spec_scale to_float f ''cell_lengths'' l0, spec_scale to_float f ''cell_lengths'' l1,
               spec_scale to_float f ''cell_lengths'' l2]"
    using scaled_cell_values_spec ls' l names by blast
  moreover have "as' = [spec_scale to_float f ''cell_angles'' a0, spec_scale to_float f ''cell_angles'' a1,
               spec_scale to_float f ''cell_angles'' a2]"
    using scaled_cell_values_spec as' a names by blast
  ultimately show "\<exists>l0 l1 l2 a0 a1 a2.
         get f ''cell_lengths'' [0] [3] = Inr [l0, l1, l2] \<and>
         get f ''cell_angles'' [0] [3] = Inr [a0, a1, a2] \<and>
         c = UnitCell_six U (spec_scale to_float f ''cell_lengths'' l0) (spec_scale to_float f ''cell_lengths'' l1)
                            (spec_scale to_float f ''cell_lengths'' l2)
                            (spec_scale to_float f ''cell_angles'' a0) (spec_scale to_float f ''cell_angles'' a1)
                            (spec_scale to_float f ''cell_angles'' a2)"
    using ls as l a names c_eq by simp
qed

theorem read_cell_result_witness:
  "cell_data_missing no_spatial \<and> read_cell cells float32 no_spatial = Inr (UnitCell INFINITE 0 0 0 90 90 90)
   \<and> \<not> cell_data_missing scaled
   \<and> read_cell cells float32 scaled = Inr (UnitCell ORTHORHOMBIC 15 15 15 90 90 90)
   \<and> (\<exists>l0 l1 l2 a0 a1 a2.
         get scaled ''cell_lengths'' [0] [3] = Inr [l0, l1, l2] \<and>
         get scaled ''cell_angles'' [0] [3] = Inr [a0, a1, a2] \<and>
         UnitCell ORTHORHOMBIC 15 15 15 90 90 90 =
           UnitCell_six cells (spec_scale float32 scaled ''cell_lengths'' l0)
                              (spec_scale float32 scaled ''cell_lengths'' l1)
                              (spec_scale float32 scaled ''cell_lengths'' l2)
                              (spec_scale float32 scaled ''cell_angles'' a0)
                              (spec_scale float32 scaled ''cell_angles'' a1)
                              (spec_scale float32 scaled ''cell_angles'' a2))"
proof -
  have m: "cell_data_missing no_spatial"
    by (simp add: cell_data_missing_def no_spatial_def scaled_def)
  have p: "\<not> cell_data_missing scaled"
    by (simp add: cell_data_missing_def scaled_def)
  have d: "UnitCell_default cells = (UnitCell INFINITE 0 0 0 90 90 90 :: real UnitCell)"
    by (simp add: cells_def)
  from read_cell_result [of no_spatial cells float32] m d
  have 1: "read_cell cells float32 no_spatial = Inr (UnitCell INFINITE 0 0 0 90 90 90)" by simp
  from read_cell_result [of scaled cells float32 "UnitCell ORTHORHOMBIC 15 15 15 90 90 90"]
    p read_cell_scaled
  have 2: "\<exists>l0 l1 l2 a0 a1 a2.
         get scaled ''cell_lengths'' [0] [3] = Inr [l0, l1, l2] \<and>
         get scaled ''cell_angles'' [0] [3] = Inr [a0, a1, a2] \<and>
         UnitCell ORTHORHOMBIC 15 15 15 90 90 90 =
           UnitCell_six cells (spec_scale float32 scaled ''cell_lengths'' l0)
                              (spec_scale float32 scaled ''cell_lengths'' l1)
                              (spec_scale float32 scaled ''cell_lengths'' l2)
                              (spec_scale float32 scaled ''cell_angles'' a0)
                              (spec_scale float32 scaled ''cell_angles'' a1)
                              (spec_scale float32 scaled ''cell_angles'' a2)"
    by blast
  from m p 1 2 read_cell_scaled show ?thesis by blast
qed

subsection \<open>C3: validation\<close>

text \<open>
  Claim C3, amended. \<open>is_valid\<close> consults, in this order, the global attribute
  \<open>Conventions\<close>, the global attribute \<open>ConventionVersion\<close>, the dimension \<open>spatial\<close> and, only
  when an atom count is supplied, the dimension \<open>atom\<close>. It returns false at the first
  check that fails and true when all the applicable checks pass, provided the dimensions
  it reaches exist: when the two attributes are right and \<open>spatial\<close> is absent, or \<open>spatial\<close>
  is 3, a count is supplied and \<open>atom\<close> is absent, the lookup error of the container
  propagates and \<open>is_valid\<close> returns nothing.
\<close>

theorem is_valid_checks:
  "is_valid f natoms =
     (if is_valid_lookup_fails f natoms then Inl LookupError
      else Inr (spec_is_valid f (expected_atoms natoms)))"
  by (auto simp: is_valid_def is_valid_lookup_fails_def spec_is_valid_def expected_atoms_def
        global_attribute_def dimension_def Let_def split: option.splits)

theorem is_valid_checks_witness:
  "is_valid scaled 2 = Inr True \<and> is_valid scaled 3 = Inr False \<and>
   is_valid no_atom 2 = Inl LookupError \<and> is_valid no_atom size_t_max = Inr True"
  using is_valid_checks [of scaled 2] is_valid_checks [of scaled 3]
    is_valid_checks [of no_atom 2] is_valid_checks [of no_atom size_t_max]
  by (simp add: is_valid_lookup_fails_def spec_is_valid_def expected_atoms_def example_defs
        size_t_max_def)

text \<open>
  Claim C3 as stated fails on a container whose two attributes are right and that has no
  \<open>spatial\<close> dimension: \<open>is_valid\<close> does not return false there, it throws.
\<close>

theorem is_valid_counterexample:
  "is_valid no_spatial size_t_max = Inl LookupError \<and>
   is_valid no_spatial size_t_max \<noteq> Inr (spec_is_valid no_spatial (expected_atoms size_t_max))"
  by (simp add: is_valid_def example_defs global_attribute_def dimension_def)

subsection \<open>C4: one frame to write\<close>

text \<open>
  Claim C4. On a handle through which \<open>write\<close> has succeeded, a second \<open>write\<close>, of any
  frame, throws the single-frame error and leaves the codec and its container exactly as
  the first \<open>write\<close> left them.
\<close>

theorem write_twice:
  "write_frame cfg U frame this = Done this' \<Longrightarrow>
   write_frame cfg U frame' this' = Thrown single_frame_write this'"
  by (rule write_frame_consumed) (rule write_frame_Done_step_done)

theorem write_twice_witness:
  "write_frame build cells four_atoms (fresh ''out.ncrst'') =
     Done \<lparr>ncfile = written build cells four_atoms ''out.ncrst'', step_done = True,
           validated = True\<rparr>
   \<and> write_frame build cells four_atoms
        \<lparr>ncfile = written build cells four_atoms ''out.ncrst'', step_done = True,
         validated = True\<rparr> =
     Thrown single_frame_write
        \<lparr>ncfile = written build cells four_atoms ''out.ncrst'', step_done = True,
         validated = True\<rparr>"
proof -
  have w: "write_frame build cells four_atoms (fresh ''out.ncrst'') =
     Done \<lparr>ncfile = written build cells four_atoms ''out.ncrst'', step_done = True,
           validated = True\<rparr>"
    by (rule write_frame_fresh) (rule frame_wf_examples)
  from write_twice [OF w, of four_atoms] w show ?thesis by blast
qed

subsection \<open>C5: the generic array read\<close>

text \<open>
  Claim C5. When \<open>read_array\<close> returns, the variable is shaped [atom, spatial]: its
  \<open>natoms * 3\<close> raw values were read in one block, every raw value was multiplied by the
  \<open>scale_factor\<close> attribute of the variable (as the \<open>float\<close> it is read into) when it has
  one, and vector \<open>i\<close> of the result is
  made of the scaled values at the positions \<open>3 i\<close>, \<open>3 i + 1\<close> and \<open>3 i + 2\<close>, for every atom
  \<open>i\<close>, in the order of the atoms.
\<close>

theorem read_array_result:
  assumes "read_array to_float f array name = Inr out"
  shows "\<exists>natoms raw.
           dimensions f ''atom'' = Some natoms \<and>
           get f name [0, 0] [natoms, 3] = Inr raw \<and>
           length raw = natoms * 3 \<and> length out = natoms \<and>
           (\<forall>i < natoms. out ! i = Vector3D (spec_scale to_float f name (raw ! (3 * i)))
                                            (spec_scale to_float f name (raw ! (3 * i + 1)))
                                            (spec_scale to_float f name (raw ! (3 * i + 2))))"
proof -
  from assms obtain v natoms raw xs where
    v: "variable f NcDouble name = Inr v" and
    n: "dimension f ''atom'' = Inr natoms" and
    len: "length array = natoms" and
    raw: "get f v [0, 0] [natoms, 3] = Inr raw" and
    xs: "scaled_values to_float f v raw = Inr xs" and
    out: "out = reshape natoms xs array"
    by (auto simp: read_array_def and_then_def split: sum.splits if_splits)
  have v_name: "v = name" using v by (rule variable_Inr)
  have dim: "dimensions f ''atom'' = Some natoms"
    using n by (auto simp: dimension_def split: option.splits)
  have raw_len: "length raw = natoms * 3"
    using get_length [OF raw] by simp
  have xs_eq: "xs = map (spec_scale to_float f name) raw"
    using scaled_values_spec [OF xs] v_name by simp
  have out_len: "length out = natoms"
    using out len by (simp add: reshape_length)
  have "out ! i = Vector3D (spec_scale to_float f name (raw ! (3 * i)))
                           (spec_scale to_float f name (raw ! (3 * i + 1)))
                           (spec_scale to_float f name (raw ! (3 * i + 2)))" if "i < natoms" for i
  proof -
    have "3 * i + 2 < length raw" using that raw_len by simp
    then show ?thesis
      using that out len xs_eq by (simp add: reshape_nth)
  qed
  with dim raw v_name raw_len out_len show ?thesis by blast
qed

theorem read_array_result_witness:
  "read_array float32 scaled (replicate 2 (Vector3D 0 0 0)) ''coordinates'' =
     Inr [Vector3D 2 4 6, Vector3D 8 10 12]
   \<and> (\<exists>natoms raw.
           dimensions scaled ''atom'' = Some natoms \<and>
           get scaled ''coordinates'' [0, 0] [natoms, 3] = Inr raw \<and>
           length raw = natoms * 3 \<and>
           length [Vector3D 2 4 6, Vector3D 8 10 12 :: real Vector3D] = natoms \<and>
           (\<forall>i < natoms. [Vector3D 2 4 6, Vector3D 8 10 12] ! i =
              Vector3D (spec_scale float32 scaled ''coordinates'' (raw ! (3 * i)))
                       (spec_scale float32 scaled ''coordinates'' (raw ! (3 * i + 1)))
                       (spec_scale float32 scaled ''coordinates'' (raw ! (3 * i + 2)))))"
proof -
  have r: "read_array float32 scaled (replicate 2 (Vector3D 0 0 0)) ''coordinates'' =
     Inr [Vector3D 2 4 6, Vector3D 8 10 12]"
    by (simp add: read_array_def and_then_def variable_def dimension_def get_def
          bounds_match_def scaled_values_def attribute_exists_def float_attribute_def float32_2 float32_3
          reshape_def upt_0_2 scaled_def numeral_2_eq_2)
  from read_array_result [OF r] r show ?thesis by blast
qed

subsection \<open>C6: writing a frame and reading it back\<close>

text \<open>
  Claim C6, amended. For every frame, of any atom count, with any positions, any cell and
  velocities or none (one velocity for every atom, as the class \<open>Frame\<close> keeps them),
  \<open>write\<close> through a fresh handle succeeds, and opening the container
  again and calling \<open>read\<close> gives a frame with the same positions, with the same velocities
  when the written frame had some and with none when it had none, and with the cell that
  the six-scalar constructor builds from the lengths and angles of the written cell. That
  cell is the written one whenever the constructor gives the written cell back from its own
  lengths and angles. The container has a \<open>velocities\<close> variable exactly when the frame
  had velocities.
\<close>

theorem roundtrip_restores:
  "frame_wf frame \<Longrightarrow>
   roundtrip cfg U to_float frame p = Inr (frame\<lparr>cell := rebuilt U (cell frame)\<rparr>)
   \<and> (rebuilt U (cell frame) = cell frame \<longrightarrow> roundtrip cfg U to_float frame p = Inr frame)
   \<and> write_frame cfg U frame (fresh p) =
        Done \<lparr>ncfile = written cfg U frame p, step_done = True, validated = True\<rparr>
   \<and> variable_exists (written cfg U frame p) ''velocities'' = (velocities frame \<noteq> None)"
proof (intro conjI impI)
  assume wf: "frame_wf frame"
  show r: "roundtrip cfg U to_float frame p = Inr (frame\<lparr>cell := rebuilt U (cell frame)\<rparr>)"
    using wf by (rule roundtrip_frame)
  show "write_frame cfg U frame (fresh p) =
        Done \<lparr>ncfile = written cfg U frame p, step_done = True, validated = True\<rparr>"
    using wf by (rule write_frame_fresh)
  show "variable_exists (written cfg U frame p) ''velocities'' = (velocities frame \<noteq> None)"
    by (cases "velocities frame") (simp_all add: variable_exists_def written_variables [OF wf])
  assume "rebuilt U (cell frame) = cell frame"
  with r show "roundtrip cfg U to_float frame p = Inr frame" by simp
qed

theorem roundtrip_restores_witness:
  "frame_wf water_frame
   \<and> rebuilt cells (cell water_frame) = cell water_frame
   \<and> roundtrip build cells float32 water_frame ''out.ncrst'' = Inr water_frame
   \<and> variable_exists (written build cells water_frame ''out.ncrst'') ''velocities''
   \<and> frame_wf (water_frame\<lparr>velocities := None\<rparr>)
   \<and> roundtrip build cells float32 (water_frame\<lparr>velocities := None\<rparr>) ''out.ncrst'' =
        Inr (water_frame\<lparr>velocities := None\<rparr>)
   \<and> \<not> variable_exists (written build cells (water_frame\<lparr>velocities := None\<rparr>) ''out.ncrst'')
          ''velocities''"
proof -
  have wf: "frame_wf water_frame" "frame_wf (water_frame\<lparr>velocities := None\<rparr>)"
    by (simp_all add: frame_wf_def water_frame_def four_atoms_def)
  have c: "rebuilt cells (cell water_frame) = cell water_frame"
    "rebuilt cells (cell (water_frame\<lparr>velocities := None\<rparr>)) = cell (water_frame\<lparr>velocities := None\<rparr>)"
    by (simp_all add: rebuilt_def cells_def water_frame_def)
  have v: "velocities water_frame \<noteq> None" "velocities (water_frame\<lparr>velocities := None\<rparr>) = None"
    by (simp_all add: water_frame_def four_atoms_def)
  from roundtrip_restores [OF wf(1), of build cells float32 "''out.ncrst''"] c(1) v(1)
  have 1: "roundtrip build cells float32 water_frame ''out.ncrst'' = Inr water_frame
     \<and> variable_exists (written build cells water_frame ''out.ncrst'') ''velocities''"
    by simp
  from roundtrip_restores [OF wf(2), of build cells float32 "''out.ncrst''"] c(2) v(2)
  have 2: "roundtrip build cells float32 (water_frame\<lparr>velocities := None\<rparr>) ''out.ncrst'' =
        Inr (water_frame\<lparr>velocities := None\<rparr>)
     \<and> \<not> variable_exists (written build cells (water_frame\<lparr>velocities := None\<rparr>) ''out.ncrst'')
          ''velocities''"
    by simp
  from wf c(1) 1 2 show ?thesis by blast
qed

text \<open>
  Claim C6 as stated fails on the frame of the writing test, whose cell is the default
  cell: the writer stores its zero lengths and right angles, and the reader builds from
  them an orthorhombic cell, which is not the default cell.
\<close>

theorem roundtrip_counterexample:
  "roundtrip build cells float32 four_atoms ''out.ncrst'' =
     Inr (four_atoms\<lparr>cell := UnitCell ORTHORHOMBIC 0 0 0 90 90 90\<rparr>)
   \<and> roundtrip build cells float32 four_atoms ''out.ncrst'' \<noteq> Inr four_atoms"
proof -
  have "rebuilt cells (cell four_atoms) = (UnitCell ORTHORHOMBIC 0 0 0 90 90 90 :: real UnitCell)"
    by (simp add: rebuilt_def cells_def four_atoms_def)
  then have r: "roundtrip build cells float32 four_atoms ''out.ncrst'' =
     Inr (four_atoms\<lparr>cell := UnitCell ORTHORHOMBIC 0 0 0 90 90 90\<rparr>)"
    using roundtrip_frame [OF frame_wf_examples(1), of build cells float32 "''out.ncrst''"] by simp
  have "four_atoms\<lparr>cell := UnitCell ORTHORHOMBIC 0 0 0 90 90 90\<rparr> \<noteq> four_atoms"
    by (simp add: four_atoms_def cells_def)
  with r show ?thesis by simp
qed

subsection \<open>C7: construction\<close>

text \<open>
  Claim C7, amended. In read mode the constructor runs \<open>is_valid\<close> with no expected atom
  count, the count \<open>static_cast<size_t>(-1)\<close>. When \<open>is_valid\<close> returns false it throws the
  format error "invalid AMBER Restart file"; when \<open>is_valid\<close> itself throws, the lookup
  error of a dimension that is absent, that error leaves the constructor in place of the
  format error; when \<open>is_valid\<close> returns true the codec is validated. In append mode the
  constructor always throws; with a compression other than the default it always throws,
  in every mode. A constructor that throws returns no codec, and it throws the same error
  whatever the variables of the container hold: no array data is consulted.
\<close>

theorem constructor_contract:
  "AmberRestartFormat f compression =
     (case mode f of
        READ \<Rightarrow>
          (case is_valid f size_t_max of
             Inl e \<Rightarrow> Inl e
           | Inr ok \<Rightarrow>
               if \<not> ok
               then Inl (format_error (''invalid AMBER Restart file at '' @ [CHR 0x27] @ path f
                                       @ [CHR 0x27]))
               else if compression \<noteq> DEFAULT
               then Inl (format_error ''compression is not supported with NetCDF format'')
               else Inr \<lparr>ncfile = f, step_done = False, validated = True\<rparr>)
      | WRITE \<Rightarrow>
          (if compression \<noteq> DEFAULT
           then Inl (format_error ''compression is not supported with NetCDF format'')
           else Inr \<lparr>ncfile = f, step_done = False, validated = False\<rparr>)
      | APPEND \<Rightarrow>
          Inl (format_error ''append mode ('a') is not supported with AMBER Restart format''))
   \<and> (mode f = APPEND \<or> compression \<noteq> DEFAULT \<longrightarrow> isl (AmberRestartFormat f compression))
   \<and> (isl (AmberRestartFormat f compression) \<longrightarrow>
        AmberRestartFormat (f\<lparr>variables := vs\<rparr>) compression = AmberRestartFormat f compression)"
proof (cases "mode f")
  case READ
  then have m: "mode (f\<lparr>variables := vs\<rparr>) = READ" by simp
  show ?thesis
  proof (cases "is_valid f size_t_max")
    case (Inl e)
    with READ m show ?thesis by (simp add: constructor_read is_valid_variables)
  next
    case (Inr ok)
    with READ m show ?thesis
      by (cases ok; cases "compression = DEFAULT")
         (simp_all add: constructor_read is_valid_variables)
  qed
next
  case WRITE
  then have "mode (f\<lparr>variables := vs\<rparr>) = WRITE" by simp
  then show ?thesis
    using WRITE by (cases "compression = DEFAULT") (simp_all add: constructor_write)
next
  case APPEND
  then have "mode (f\<lparr>variables := vs\<rparr>) = APPEND" by simp
  then show ?thesis using APPEND by (simp add: constructor_append)
qed

theorem constructor_contract_witness:
  "AmberRestartFormat (scaled\<lparr>global_attributes := Map.empty\<rparr>) DEFAULT =
     Inl (format_error (''invalid AMBER Restart file at '' @ [CHR 0x27] @ ''scaled.ncrst''
                        @ [CHR 0x27]))
   \<and> AmberRestartFormat scaled DEFAULT =
       Inr \<lparr>ncfile = scaled, step_done = False, validated = True\<rparr>
   \<and> isl (AmberRestartFormat (scaled\<lparr>mode := APPEND\<rparr>) DEFAULT)
   \<and> isl (AmberRestartFormat scaled (COMPRESSED 1))
   \<and> isl (AmberRestartFormat (scaled\<lparr>mode := WRITE\<rparr>) (COMPRESSED 1))
   \<and> AmberRestartFormat (scaled\<lparr>global_attributes := Map.empty, variables := Map.empty\<rparr>) DEFAULT
       = AmberRestartFormat (scaled\<lparr>global_attributes := Map.empty\<rparr>) DEFAULT"
proof -
  have invalid: "mode (scaled\<lparr>global_attributes := Map.empty\<rparr>) = READ"
      "is_valid (scaled\<lparr>global_attributes := Map.empty\<rparr>) size_t_max = Inr False"
      "path (scaled\<lparr>global_attributes := Map.empty\<rparr>) = ''scaled.ncrst''"
    by (simp_all add: scaled_def is_valid_def global_attribute_def)
  note c = constructor_contract [of "scaled\<lparr>global_attributes := Map.empty\<rparr>" DEFAULT Map.empty]
  have 1: "AmberRestartFormat (scaled\<lparr>global_attributes := Map.empty\<rparr>) DEFAULT =
     Inl (format_error (''invalid AMBER Restart file at '' @ [CHR 0x27] @ ''scaled.ncrst''
                        @ [CHR 0x27]))"
    using c [THEN conjunct1] invalid by simp
  then have 6: "AmberRestartFormat (scaled\<lparr>global_attributes := Map.empty, variables := Map.empty\<rparr>) DEFAULT
       = AmberRestartFormat (scaled\<lparr>global_attributes := Map.empty\<rparr>) DEFAULT"
    using c [THEN conjunct2, THEN conjunct2] by simp
  have 2: "AmberRestartFormat scaled DEFAULT =
       Inr \<lparr>ncfile = scaled, step_done = False, validated = True\<rparr>"
    using constructor_contract [of scaled DEFAULT Map.empty, THEN conjunct1]
      mode_examples(1) is_valid_scaled
    by simp
  have 3: "isl (AmberRestartFormat (scaled\<lparr>mode := APPEND\<rparr>) DEFAULT)"
    using constructor_contract [of "scaled\<lparr>mode := APPEND\<rparr>" DEFAULT Map.empty,
            THEN conjunct2, THEN conjunct1]
    by simp
  have 4: "isl (AmberRestartFormat scaled (COMPRESSED 1))"
    using constructor_contract [of scaled "COMPRESSED 1" Map.empty,
            THEN conjunct2, THEN conjunct1]
    by simp
  have 5: "isl (AmberRestartFormat (scaled\<lparr>mode := WRITE\<rparr>) (COMPRESSED 1))"
    using constructor_contract [of "scaled\<lparr>mode := WRITE\<rparr>" "COMPRESSED 1" Map.empty,
            THEN conjunct2, THEN conjunct1]
    by simp
  from 1 2 3 4 5 6 show ?thesis by blast
qed

text \<open>
  Claim C7 as stated fails on a container opened for reading whose two attributes are right
  and that has no \<open>spatial\<close> dimension: the validation does not succeed, and the
  constructor throws the lookup error of the container, not the format error.
\<close>

theorem constructor_counterexample:
  "mode no_spatial = READ
   \<and> AmberRestartFormat no_spatial DEFAULT = Inl LookupError
   \<and> AmberRestartFormat no_spatial DEFAULT \<noteq>
       Inl (format_error (''invalid AMBER Restart file at '' @ [CHR 0x27] @ path no_spatial
                          @ [CHR 0x27]))"
  by (simp add: constructor_read mode_examples is_valid_no_spatial)

subsection \<open>C8: a read that fails after the cell was set\<close>

text \<open>
  Claim C8. \<open>read_step\<close> sets the cell of the caller's frame before it reads the positions.
  When the cell was read and the dimension \<open>atom\<close> is then missing, or the variable
  \<open>coordinates\<close> is, \<open>read_step\<close> throws the lookup error with the frame already changed,
  its cell being the one just read, and with the codec unchanged: the flag that records
  that the frame was consumed is as it was.
\<close>

theorem read_step_partial:
  "read_cell U to_float (ncfile this) = Inr c \<Longrightarrow>
   (dimension (ncfile this) ''atom'' = Inl e \<longrightarrow>
      read_step U to_float 0 (this, frame) = Thrown e (this, set_cell c frame))
   \<and> (dimension (ncfile this) ''atom'' = Inr n \<and>
        variable (ncfile this) NcDouble ''coordinates'' = Inl e \<longrightarrow>
      read_step U to_float 0 (this, frame) = Thrown e (this, resize n (set_cell c frame)))
   \<and> cell (set_cell c frame) = c \<and> cell (resize n (set_cell c frame)) = c"
  by (simp add: read_step_def read_array_no_variable resize_cell set_cell_def)

theorem read_step_partial_witness:
  "read_step cells float32 0 (\<lparr>ncfile = no_atom, step_done = False, validated = True\<rparr>,
                       Frame_default cells) =
     Thrown LookupError
       (\<lparr>ncfile = no_atom, step_done = False, validated = True\<rparr>,
        \<lparr>positions = [], velocities = None, cell = UnitCell ORTHORHOMBIC 15 15 15 90 90 90\<rparr>)
   \<and> read_step cells float32 0 (\<lparr>ncfile = no_coordinates, step_done = False, validated = True\<rparr>,
                         Frame_default cells) =
     Thrown LookupError
       (\<lparr>ncfile = no_coordinates, step_done = False, validated = True\<rparr>,
        \<lparr>positions = [Vector3D 0 0 0, Vector3D 0 0 0], velocities = None,
         cell = UnitCell ORTHORHOMBIC 15 15 15 90 90 90\<rparr>)
   \<and> cell (Frame_default cells) = (UnitCell INFINITE 0 0 0 90 90 90 :: real UnitCell)"
proof -
  have a: "dimension no_atom ''atom'' = Inl LookupError"
    by (simp add: dimension_def no_atom_def scaled_def)
  have b: "dimension no_coordinates ''atom'' = Inr 2 \<and>
           variable no_coordinates NcDouble ''coordinates'' = Inl LookupError"
    by (simp add: dimension_def variable_def no_coordinates_def scaled_def)
  have f1: "set_cell (UnitCell ORTHORHOMBIC 15 15 15 90 90 90) (Frame_default cells) =
      \<lparr>positions = [], velocities = None,
       cell = (UnitCell ORTHORHOMBIC 15 15 15 90 90 90 :: real UnitCell)\<rparr>"
    by (simp add: set_cell_def Frame_default_def)
  have f2: "resize 2 (set_cell (UnitCell ORTHORHOMBIC 15 15 15 90 90 90) (Frame_default cells)) =
      \<lparr>positions = [Vector3D 0 0 0, Vector3D 0 0 0], velocities = None,
       cell = (UnitCell ORTHORHOMBIC 15 15 15 90 90 90 :: real UnitCell)\<rparr>"
    by (simp add: set_cell_def Frame_default_def resize_def resize_array_def numeral_2_eq_2)
  have f3: "cell (Frame_default cells) = (UnitCell INFINITE 0 0 0 90 90 90 :: real UnitCell)"
    by (simp add: Frame_default_def cells_def)
  from read_step_partial [where U = cells and to_float = float32
         and this = "\<lparr>ncfile = no_atom, step_done = False, validated = True\<rparr>"
         and c = "UnitCell ORTHORHOMBIC 15 15 15 90 90 90" and e = LookupError
         and frame = "Frame_default cells" and n = 0]
    read_cell_no_atom a f1
  have 1: "read_step cells float32 0 (\<lparr>ncfile = no_atom, step_done = False, validated = True\<rparr>,
                       Frame_default cells) =
     Thrown LookupError
       (\<lparr>ncfile = no_atom, step_done = False, validated = True\<rparr>,
        \<lparr>positions = [], velocities = None, cell = UnitCell ORTHORHOMBIC 15 15 15 90 90 90\<rparr>)"
    by simp
  from read_step_partial [where U = cells and to_float = float32
         and this = "\<lparr>ncfile = no_coordinates, step_done = False, validated = True\<rparr>"
         and c = "UnitCell ORTHORHOMBIC 15 15 15 90 90 90" and e = LookupError
         and frame = "Frame_default cells" and n = 2]
    read_cell_no_coordinates b f2
  have 2: "read_step cells float32 0 (\<lparr>ncfile = no_coordinates, step_done = False, validated = True\<rparr>,
                         Frame_default cells) =
     Thrown LookupError
       (\<lparr>ncfile = no_coordinates, step_done = False, validated = True\<rparr>,
        \<lparr>positions = [Vector3D 0 0 0, Vector3D 0 0 0], velocities = None,
         cell = UnitCell ORTHORHOMBIC 15 15 15 90 90 90\<rparr>)"
    by simp
  from 1 2 f3 show ?thesis by blast
qed

subsection \<open>C9: the cell is always written\<close>

text \<open>
  Claim C9. \<open>initialize\<close> declares the variables \<open>cell_lengths\<close> and \<open>cell_angles\<close> whenever
  it returns, and every \<open>write\<close> that returns has stored the three lengths and the three
  angles of the frame's cell in them, whatever the cell is; the first \<open>write\<close> of a fresh
  handle does return. So a written container always has both cell variables, and the
  default cell of a frame is stored as its explicit lengths and angles.
\<close>

theorem write_stores_cell:
  "(write_frame cfg U frame this = Done this' \<longrightarrow>
      (\<exists>lv av.
         variables (ncfile this') ''cell_lengths'' = Some lv \<and>
         data lv = DoubleData [cell_a U (cell frame), cell_b U (cell frame),
                               cell_c U (cell frame)] \<and>
         variables (ncfile this') ''cell_angles'' = Some av \<and>
         data av = DoubleData [cell_alpha U (cell frame), cell_beta U (cell frame),
                               cell_gamma U (cell frame)]))
   \<and> (initialize cfg f natoms wv = Done f' \<longrightarrow>
      (\<exists>lv av. variables f' ''cell_lengths'' = Some lv \<and> dims lv = [''cell_spatial''] \<and>
               variables f' ''cell_angles'' = Some av \<and> dims av = [''cell_angular'']))
   \<and> (frame_wf frame \<longrightarrow> (\<exists>w. write_frame cfg U frame (fresh p) = Done w))"
proof (intro conjI impI)
  assume "write_frame cfg U frame this = Done this'"
  then obtain f0 where "write_data U frame f0 = Done (ncfile this')"
    using write_frame_Done_data by blast
  then show "\<exists>lv av.
         variables (ncfile this') ''cell_lengths'' = Some lv \<and>
         data lv = DoubleData [cell_a U (cell frame), cell_b U (cell frame),
                               cell_c U (cell frame)] \<and>
         variables (ncfile this') ''cell_angles'' = Some av \<and>
         data av = DoubleData [cell_alpha U (cell frame), cell_beta U (cell frame),
                               cell_gamma U (cell frame)]"
    by (rule write_data_Done)
next
  assume "initialize cfg f natoms wv = Done f'"
  then show "\<exists>lv av. variables f' ''cell_lengths'' = Some lv \<and> dims lv = [''cell_spatial''] \<and>
               variables f' ''cell_angles'' = Some av \<and> dims av = [''cell_angular'']"
    by (rule initialize_declares)
next
  assume "frame_wf frame"
  then show "\<exists>w. write_frame cfg U frame (fresh p) = Done w"
    using write_frame_fresh by blast
qed

theorem write_stores_cell_witness:
  "write_frame build cells (Frame_default cells :: (real, real UnitCell) Frame)
       (fresh ''empty.ncrst'') =
     Done \<lparr>ncfile = written build cells (Frame_default cells) ''empty.ncrst'',
           step_done = True, validated = True\<rparr>
   \<and> (\<exists>lv av.
         variables (written build cells (Frame_default cells :: (real, real UnitCell) Frame)
                      ''empty.ncrst'') ''cell_lengths'' = Some lv \<and>
         data lv = DoubleData [0, 0, 0] \<and>
         variables (written build cells (Frame_default cells :: (real, real UnitCell) Frame)
                      ''empty.ncrst'') ''cell_angles'' = Some av \<and>
         data av = DoubleData [90, 90, 90])"
proof -
  let ?frame = "Frame_default cells :: (real, real UnitCell) Frame"
  let ?w = "\<lparr>ncfile = written build cells ?frame ''empty.ncrst'',
             step_done = True, validated = True\<rparr>"
  have w: "write_frame build cells ?frame (fresh ''empty.ncrst'') = Done ?w"
    by (rule write_frame_fresh) (rule frame_wf_examples)
  have c: "cell_a cells (cell ?frame) = 0" "cell_b cells (cell ?frame) = 0"
    "cell_c cells (cell ?frame) = 0" "cell_alpha cells (cell ?frame) = 90"
    "cell_beta cells (cell ?frame) = 90" "cell_gamma cells (cell ?frame) = 90"
    by (simp_all add: Frame_default_def cells_def)
  from write_stores_cell [where cfg = build and U = cells and frame = ?frame
         and this = "fresh ''empty.ncrst''" and this' = ?w] w
  have "\<exists>lv av.
         variables (ncfile ?w) ''cell_lengths'' = Some lv \<and>
         data lv = DoubleData [cell_a cells (cell ?frame), cell_b cells (cell ?frame),
                               cell_c cells (cell ?frame)] \<and>
         variables (ncfile ?w) ''cell_angles'' = Some av \<and>
         data av = DoubleData [cell_alpha cells (cell ?frame), cell_beta cells (cell ?frame),
                               cell_gamma cells (cell ?frame)]"
    by blast
  then have "\<exists>lv av.
         variables (written build cells ?frame ''empty.ncrst'') ''cell_lengths'' = Some lv \<and>
         data lv = DoubleData [0, 0, 0] \<and>
         variables (written build cells ?frame ''empty.ncrst'') ''cell_angles'' = Some av \<and>
         data av = DoubleData [90, 90, 90]"
    by (simp add: c)
  with w show ?thesis by blast
qed

subsection \<open>C10: the scale factor is a float\<close>

text \<open>
  Claim C10. The \<open>scale_factor\<close> attribute goes into a variable declared \<open>float\<close>, in
  \<open>read_cell\<close> and in \<open>read_array\<close> alike, before it multiplies the stored doubles. So for a
  variable whose attribute holds the number \<open>a\<close>, every value of a cell triple and every
  value of a per-atom array is multiplied by \<open>to_float a\<close>, the \<open>float\<close> nearest to \<open>a\<close>, and
  not by \<open>a\<close> itself.
\<close>

theorem scale_factor_single_precision:
  "variables f var = Some v \<Longrightarrow> attributes v ''scale_factor'' = Some (FloatAttribute a) \<Longrightarrow>
   scaled_values to_float f var xs = Inr (map (\<lambda>x. x * to_float a) xs)
   \<and> scaled_cell_values to_float f var [x0, x1, x2] =
       Inr [x0 * to_float a, x1 * to_float a, x2 * to_float a]
   \<and> spec_scale to_float f var x = x * to_float a"
  by (simp add: scaled_values_def scaled_cell_values_def scale_triple_def attribute_exists_def
        float_attribute_def spec_scale_def)

text \<open>
  With the scale factor \<open>1 + 2 ^ -30\<close>, a double that is not a \<open>float\<close>, the stored value
  \<open>2 ^ 30\<close> is read as \<open>2 ^ 30\<close>: the factor applied is the float 1, where the stored factor
  would give \<open>2 ^ 30 + 1\<close>.
\<close>

theorem scale_factor_single_precision_witness:
  "float32 (1 + 1 / 2 ^ 30) = 1
   \<and> scaled_values float32 fine ''coordinates'' [2 ^ 30, 0, 0] = Inr [2 ^ 30, 0, 0]
   \<and> scaled_cell_values float32 fine ''cell_lengths'' [2 ^ 30, 2 ^ 30, 2 ^ 30] =
       Inr [2 ^ 30, 2 ^ 30, 2 ^ 30]
   \<and> map (\<lambda>x. x * (1 + 1 / 2 ^ 30)) [2 ^ 30, 0, 0 :: real] = [2 ^ 30 + 1, 0, 0]
   \<and> read_array float32 fine [Vector3D 0 0 0] ''coordinates'' = Inr [Vector3D (2 ^ 30) 0 0]
   \<and> read_cell cells float32 fine =
       Inr (UnitCell ORTHORHOMBIC (2 ^ 30) (2 ^ 30) (2 ^ 30) 90 90 90)"
proof -
  let ?a = "1 + 1 / 2 ^ 30 :: real"
  let ?cv = "\<lparr>dims = [''atom'', ''spatial''],
              attributes = map_of [(''scale_factor'', FloatAttribute ?a)],
              data = DoubleData [2 ^ 30, 0, 0]\<rparr>"
  let ?lv = "\<lparr>dims = [''cell_spatial''],
              attributes = map_of [(''scale_factor'', FloatAttribute ?a)],
              data = DoubleData [2 ^ 30, 2 ^ 30, 2 ^ 30]\<rparr>"
  have cv: "variables fine ''coordinates'' = Some ?cv"
      "attributes ?cv ''scale_factor'' = Some (FloatAttribute ?a)"
    by (simp_all add: fine_def)
  have lv: "variables fine ''cell_lengths'' = Some ?lv"
      "attributes ?lv ''scale_factor'' = Some (FloatAttribute ?a)"
    by (simp_all add: fine_def)
  from scale_factor_single_precision [OF cv, where to_float = float32
         and xs = "[2 ^ 30, 0, 0]" and ?x0.0 = 0 and ?x1.0 = 0 and ?x2.0 = 0 and x = 0]
  have 1: "scaled_values float32 fine ''coordinates'' [2 ^ 30, 0, 0] = Inr [2 ^ 30, 0, 0]"
    by (simp add: float32_fine_numeral)
  from scale_factor_single_precision [OF lv, where to_float = float32
         and xs = "[]" and ?x0.0 = "2 ^ 30" and ?x1.0 = "2 ^ 30" and ?x2.0 = "2 ^ 30" and x = 0]
  have 2: "scaled_cell_values float32 fine ''cell_lengths'' [2 ^ 30, 2 ^ 30, 2 ^ 30] =
       Inr [2 ^ 30, 2 ^ 30, 2 ^ 30]"
    by (simp add: float32_fine_numeral)
  have 3: "map (\<lambda>x. x * (1 + 1 / 2 ^ 30)) [2 ^ 30, 0, 0 :: real] = [2 ^ 30 + 1, 0, 0]"
    by (simp add: algebra_simps)
  from float32_fine 1 2 3 read_array_fine read_cell_fine show ?thesis by blast
qed

end
